theory Spec2Isabelle
  imports Complex_Main "HOL-Library.Word"
begin

section \<open>The XML element tree handed to the device (lilxml, LilXmlElement)\<close>

text \<open>
  An element has a tag, an ordered attribute list, character content and child elements.
  \<open>getAttribute\<close> returns the first attribute of that name; an absent attribute is the
  invalid LilXmlAttribute, here \<open>None\<close>. \<open>toCString\<close> of an invalid value is the empty
  string.
\<close>

datatype XMLEle =
  XMLEle (tagName: string) (attrs: "(string \<times> string) list")
         (pcdata: string) (getElements: "XMLEle list")

definition getAttribute :: "XMLEle \<Rightarrow> string \<Rightarrow> string option" where
  "getAttribute e a = map_of (attrs e) a"

definition toCString :: "string option \<Rightarrow> string" where
  "toCString v = (case v of None \<Rightarrow> [] | Some s \<Rightarrow> s)"

definition getElementsByTagName :: "XMLEle \<Rightarrow> string \<Rightarrow> XMLEle list" where
  "getElementsByTagName e t = filter (\<lambda>c. tagName c = t) (getElements e)"

section \<open>Properties and widgets\<close>

datatype INDI_PROPERTY_TYPE =
  INDI_NUMBER | INDI_SWITCH | INDI_TEXT | INDI_LIGHT | INDI_BLOB | INDI_UNKNOWN

datatype IPState = IPS_IDLE | IPS_OK | IPS_BUSY | IPS_ALERT

datatype ISState = ISS_OFF | ISS_ON

datatype IPerm = IP_RO | IP_WO | IP_RW

type_synonym byte = "8 word"

text \<open>
  Modelled from the spec: the classes \<open>WidgetView\<close>, \<open>PropertyView\<close> and \<open>INDI::Property\<close>
  are outside the sources at hand; the records follow the data model of the spec. Every
  widget has a name and a label; the rest depends on the kind (a Number has a format,
  bounds, a step and a value, a BLOB a format, a buffer, the length of the buffer and
  a size). A double is a \<open>real\<close> here: the device only stores the numbers the converters
  return.
\<close>

record 'v WidgetView =
  wname :: string
  wlabel :: string
  wdata :: 'v

record INumber =
  nformat :: string
  nmin :: real
  nmax :: real
  nstep :: real
  nvalue :: real

record IBLOB =
  bformat :: string
  blob :: "byte list"
  bloblen :: int
  bsize :: int

datatype Widgets =
    Numbers "INumber WidgetView list"
  | Switches "ISState WidgetView list"
  | Texts "string WidgetView list"
  | Lights "IPState WidgetView list"
  | Blobs "IBLOB WidgetView list"
  | NoWidgets

text \<open>
  Modelled from the spec: \<open>INDI::Property\<close>, with the metadata the spec lists. The kind
  of a property is the kind of its widget vector; \<open>NoWidgets\<close> is the default-constructed
  property of type \<open>INDI_UNKNOWN\<close>, the one \<open>isValid\<close> refuses. The accessors below read
  the record: names match by exact equality, and a property is empty when it has no
  widget.
\<close>

record Property =
  name :: string
  device :: string
  label :: string
  group :: string
  perm :: IPerm
  state :: IPState
  timeout :: real
  registered :: bool
  dynamic :: bool
  widgets :: Widgets

fun widgetsType :: "Widgets \<Rightarrow> INDI_PROPERTY_TYPE" where
  "widgetsType (Numbers ws) = INDI_NUMBER"
| "widgetsType (Switches ws) = INDI_SWITCH"
| "widgetsType (Texts ws) = INDI_TEXT"
| "widgetsType (Lights ws) = INDI_LIGHT"
| "widgetsType (Blobs ws) = INDI_BLOB"
| "widgetsType NoWidgets = INDI_UNKNOWN"

definition getType :: "Property \<Rightarrow> INDI_PROPERTY_TYPE" where
  "getType p = widgetsType (widgets p)"

definition getRegistered :: "Property \<Rightarrow> bool" where
  "getRegistered p = registered p"

definition isNameMatch :: "Property \<Rightarrow> string \<Rightarrow> bool" where
  "isNameMatch p otherName = (name p = otherName)"

fun widgetNames :: "Widgets \<Rightarrow> string list" where
  "widgetNames (Numbers ws) = map wname ws"
| "widgetNames (Switches ws) = map wname ws"
| "widgetNames (Texts ws) = map wname ws"
| "widgetNames (Lights ws) = map wname ws"
| "widgetNames (Blobs ws) = map wname ws"
| "widgetNames NoWidgets = []"

definition isEmpty :: "Property \<Rightarrow> bool" where
  "isEmpty p = (widgetNames (widgets p) = [])"

section \<open>The device (BaseDevicePrivate)\<close>

text \<open>
  What the mediator, the watch callbacks and the update hook of a property are told, in
  the order of the calls (the trace of the effects the device has on its observers). A property is passed by its handle, the position of its entry
  in \<open>pAll\<close>; a widget pointer is the position of the widget in its vector, and \<open>None\<close>
  is the null pointer.
\<close>

datatype Event =
    NewProperty nat
  | NewNumber nat
  | NewSwitch nat
  | NewText nat
  | NewLight nat
  | NewBLOB nat "nat option"
  | NewMessage nat
  | WatchCallback string
  | EmitUpdate nat

text \<open>
  \<open>pAll\<close> is the ordered list of properties. \<open>watchPropertyMap\<close> keeps the names that
  have a callback, \<open>mediator\<close> says whether a mediator is attached, a logged message is
  its \<open>timestamp\<close> attribute (if it had one) and its text, and \<open>calls\<close> is the trace of
  the callbacks made so far.
\<close>

record BaseDevicePrivate =
  deviceName :: string
  pAll :: "Property list"
  watchPropertyMap :: "string list"
  mediator :: bool
  messageLog :: "(string option \<times> string) list"
  calls :: "Event list"

subsection \<open>Lookup\<close>

text \<open>
  \<open>BaseDevice::getProperty\<close>: the loop over \<open>pAll\<close>, with the position of the entry
  under inspection. The result is the handle of the entry found, \<open>None\<close> for the
  invalid property returned after the loop.
\<close>

fun getPropertyFrom ::
  "Property list \<Rightarrow> nat \<Rightarrow> string \<Rightarrow> INDI_PROPERTY_TYPE \<Rightarrow> nat option" where
  "getPropertyFrom [] i n t = None"
| "getPropertyFrom (oneProp # rest) i n t =
     (if t \<noteq> getType oneProp \<and> t \<noteq> INDI_UNKNOWN then getPropertyFrom rest (Suc i) n t
      else if \<not> getRegistered oneProp then getPropertyFrom rest (Suc i) n t
      else if isNameMatch oneProp n then Some i
      else getPropertyFrom rest (Suc i) n t)"

definition getProperty ::
  "BaseDevicePrivate \<Rightarrow> string \<Rightarrow> INDI_PROPERTY_TYPE \<Rightarrow> nat option" where
  "getProperty d n t = getPropertyFrom (pAll d) 0 n t"

text \<open>
  Modelled from the spec: \<open>Property::isValid\<close> on a handle; a property was found and its
  type is known.
\<close>

definition isValid :: "BaseDevicePrivate \<Rightarrow> nat option \<Rightarrow> bool" where
  "isValid d h = (case h of None \<Rightarrow> False | Some i \<Rightarrow> getType (pAll d ! i) \<noteq> INDI_UNKNOWN)"

definition getRawProperty ::
  "BaseDevicePrivate \<Rightarrow> string \<Rightarrow> INDI_PROPERTY_TYPE \<Rightarrow> nat option" where
  "getRawProperty d n t = getProperty d n t"

definition getNumber :: "BaseDevicePrivate \<Rightarrow> string \<Rightarrow> nat option" where
  "getNumber d n = getRawProperty d n INDI_NUMBER"

definition getText :: "BaseDevicePrivate \<Rightarrow> string \<Rightarrow> nat option" where
  "getText d n = getRawProperty d n INDI_TEXT"

definition getSwitch :: "BaseDevicePrivate \<Rightarrow> string \<Rightarrow> nat option" where
  "getSwitch d n = getRawProperty d n INDI_SWITCH"

definition getLight :: "BaseDevicePrivate \<Rightarrow> string \<Rightarrow> nat option" where
  "getLight d n = getRawProperty d n INDI_LIGHT"

definition getBLOB :: "BaseDevicePrivate \<Rightarrow> string \<Rightarrow> nat option" where
  "getBLOB d n = getRawProperty d n INDI_BLOB"

text \<open>The test the loop of \<open>getProperty\<close> makes on one entry.\<close>

definition visible :: "string \<Rightarrow> INDI_PROPERTY_TYPE \<Rightarrow> Property \<Rightarrow> bool" where
  "visible n t p =
     ((t = getType p \<or> t = INDI_UNKNOWN) \<and> getRegistered p \<and> isNameMatch p n)"


section \<open>Library helpers the device calls\<close>

text \<open>
  The converters of LilXmlValue, the setters that take text, base64, the shared-buffer
  attachment, the allocator and zlib are outside the sources at hand. The device is
  modelled over any implementation of them:
  \<^item> \<open>toIPState\<close>, \<open>toDouble\<close>: the converted value and the \<open>ok\<close> flag (\<open>None\<close> is an absent
    attribute); \<open>toIPerm\<close>, \<open>toDoubleSexa\<close>, \<open>toInt\<close>: the converted value;
  \<^item> \<open>asDouble\<close>: the implicit conversion of an attribute or content to double;
  \<^item> \<open>setISState\<close>, \<open>setIPState\<close>: the state a switch, a light or a property has after
    \<open>setState\<close> was given text, from the state it had;
  \<^item> \<open>from64tobits_fast src n\<close>: the bytes decoded from the first \<open>n\<close> characters of \<open>src\<close>;
  \<^item> \<open>attachBlobByUid uid size\<close>: the bytes of the attached buffer;
  \<^item> \<open>malloc n\<close>: whether \<open>n\<close> bytes can be allocated;
  \<^item> \<open>uncompress destLen src\<close>: zlib's return code and the bytes written.
\<close>

record Externals =
  toIPState :: "string option \<Rightarrow> IPState \<times> bool"
  toIPerm :: "string option \<Rightarrow> IPerm"
  toDouble :: "string option \<Rightarrow> real \<times> bool"
  asDouble :: "string option \<Rightarrow> real"
  toDoubleSexa :: "string \<Rightarrow> real"
  toInt :: "string option \<Rightarrow> int"
  setISState :: "ISState \<Rightarrow> string \<Rightarrow> ISState"
  setIPState :: "IPState \<Rightarrow> string option \<Rightarrow> IPState"
  from64tobits_fast :: "string \<Rightarrow> nat \<Rightarrow> byte list"
  attachBlobByUid :: "string \<Rightarrow> int \<Rightarrow> byte list"
  malloc :: "nat \<Rightarrow> bool"
  uncompress :: "nat \<Rightarrow> byte list \<Rightarrow> int \<times> byte list"

definition Z_OK :: int where
  "Z_OK = 0"

text \<open>The messages written to \<open>errmsg\<close>, with the values their format strings print.\<close>

datatype ErrMsg =
    NoDeviceAttribute string
  | NoNameAttribute string
  | UnableToFindName string
  | UnableToProcessTag string
  | CouldNotFindProperty string string
  | BogusState string string string
  | NoValidMembers string string string
  | AllocFailure
  | CompressionError string string string int

text \<open>
  What a call returns: the return code, the message written to \<open>errmsg\<close> if one was
  written, and the device after the call. An invalid memory access is a fault, not a
  return: a null widget pointer that is dereferenced, a write through the null pointer
  an unchecked \<open>realloc\<close> returned, or a read past the end of a buffer.
\<close>

type_synonym Result = "int \<times> ErrMsg option \<times> BaseDevicePrivate"

datatype Fault = NullWidgetAccess | NullBufferAccess | OutOfBoundsAccess

text \<open>
  Modelled from the spec: the return code of a duplicate definition. The constant is
  declared in \<open>INDI_ERROR_TYPE\<close> (indibasetypes.h, outside the sources at hand); it is a
  code of its own, neither 0 nor the plain failure -1.
\<close>

definition INDI_PROPERTY_DUPLICATED :: int where
  "INDI_PROPERTY_DUPLICATED = - 3"

section \<open>Small device operations\<close>


definition getDeviceName :: "BaseDevicePrivate \<Rightarrow> string" where
  "getDeviceName d = deviceName d"

text \<open>A call of the mediator, made only when a mediator is attached.\<close>

definition callMediator :: "Event \<Rightarrow> BaseDevicePrivate \<Rightarrow> BaseDevicePrivate" where
  "callMediator e d = (if mediator d then d\<lparr>calls := calls d @ [e]\<rparr> else d)"

text \<open>A write through the handle \<open>h\<close>: the entry of \<open>pAll\<close> it stands for is changed.\<close>

definition updateProperty ::
  "nat \<Rightarrow> (Property \<Rightarrow> Property) \<Rightarrow> BaseDevicePrivate \<Rightarrow> BaseDevicePrivate" where
  "updateProperty h f d = d\<lparr>pAll := (pAll d)[h := f (pAll d ! h)]\<rparr>"

text \<open>
  \<open>BaseDevicePrivate::addProperty\<close>, from the text of basedevice\_p.h that the source
  file src/drivers/telescope/scopesim\_helper.h carries (lines 1143 to 1155): the
  property is pushed to the back of \<open>pAll\<close> without any test, then the watch callback
  of its name, if there is one, is called.
\<close>

definition addProperty :: "Property \<Rightarrow> BaseDevicePrivate \<Rightarrow> BaseDevicePrivate" where
  "addProperty property d =
     (let d1 = d\<lparr>pAll := pAll d @ [property]\<rparr>
      in if name property \<in> set (watchPropertyMap d1)
         then d1\<lparr>calls := calls d1 @ [WatchCallback (name property)]\<rparr>
         else d1)"

definition addMessage :: "string option \<times> string \<Rightarrow> BaseDevicePrivate \<Rightarrow> BaseDevicePrivate" where
  "addMessage msg d =
     (let d1 = d\<lparr>messageLog := messageLog d @ [msg]\<rparr>
      in callMediator (NewMessage (length (messageLog d1) - 1)) d1)"

definition doMessage :: "XMLEle \<Rightarrow> BaseDevicePrivate \<Rightarrow> BaseDevicePrivate" where
  "doMessage msg d =
     (case getAttribute msg ''message'' of
        None \<Rightarrow> d
      | Some message \<Rightarrow> addMessage (getAttribute msg ''timestamp'', message) d)"

definition checkMessage :: "XMLEle \<Rightarrow> BaseDevicePrivate \<Rightarrow> BaseDevicePrivate" where
  "checkMessage root' d =
     (case getAttribute root' ''message'' of None \<Rightarrow> d | Some ap \<Rightarrow> doMessage root' d)"

text \<open>\<open>BaseDevice::registerProperty(INDI::Property &)\<close>.\<close>

definition registerProperty :: "Property \<Rightarrow> BaseDevicePrivate \<Rightarrow> BaseDevicePrivate" where
  "registerProperty property d =
     (if getType property = INDI_UNKNOWN then d
      else
        (let pContainer = getProperty d (name property) (getType property)
         in if isValid d pContainer
            then (case pContainer of
                    None \<Rightarrow> d
                  | Some h \<Rightarrow> updateProperty h (\<lambda>p. p\<lparr>registered := True\<rparr>) d)
            else addProperty property d))"

section \<open>Definitions: \<open>BaseDevice::buildProp\<close>\<close>

text \<open>
  Modelled from the spec: \<open>crackDN\<close> belongs to indicom, outside the sources at hand.
  Step 1 of the definition algorithm: the element must carry a \<open>device\<close> and a \<open>name\<close>
  attribute, and is rejected otherwise.
\<close>

definition crackDN :: "XMLEle \<Rightarrow> ErrMsg + string \<times> string" where
  "crackDN root' =
     (case getAttribute root' ''device'' of
        None \<Rightarrow> Inl (NoDeviceAttribute (tagName root'))
      | Some rdev \<Rightarrow>
          (case getAttribute root' ''name'' of
             None \<Rightarrow> Inl (NoNameAttribute (tagName root'))
           | Some rname \<Rightarrow> Inr (rdev, rname)))"

text \<open>The table \<open>tagTypeName\<close> of \<open>buildProp\<close>, searched by tag.\<close>

definition defTagType :: "string \<Rightarrow> INDI_PROPERTY_TYPE option" where
  "defTagType t =
     (if t = ''defNumberVector'' then Some INDI_NUMBER
      else if t = ''defSwitchVector'' then Some INDI_SWITCH
      else if t = ''defTextVector'' then Some INDI_TEXT
      else if t = ''defLightVector'' then Some INDI_LIGHT
      else if t = ''defBLOBVector'' then Some INDI_BLOB
      else None)"

text \<open>The widget each kind of definition child gives, before the test on its name.\<close>

definition defNumber :: "Externals \<Rightarrow> XMLEle \<Rightarrow> INumber WidgetView" where
  "defNumber X element =
     \<lparr>wname = toCString (getAttribute element ''name''),
      wlabel = toCString (getAttribute element ''label''),
      wdata = \<lparr>nformat = toCString (getAttribute element ''format''),
               nmin = asDouble X (getAttribute element ''min''),
               nmax = asDouble X (getAttribute element ''max''),
               nstep = asDouble X (getAttribute element ''step''),
               nvalue = toDoubleSexa X (pcdata element)\<rparr>\<rparr>"

definition defSwitch :: "Externals \<Rightarrow> XMLEle \<Rightarrow> ISState WidgetView" where
  "defSwitch X element =
     \<lparr>wname = toCString (getAttribute element ''name''),
      wlabel = toCString (getAttribute element ''label''),
      wdata = setISState X ISS_OFF (pcdata element)\<rparr>"

definition defText :: "XMLEle \<Rightarrow> string WidgetView" where
  "defText element =
     \<lparr>wname = toCString (getAttribute element ''name''),
      wlabel = toCString (getAttribute element ''label''),
      wdata = pcdata element\<rparr>"

definition defLight :: "Externals \<Rightarrow> XMLEle \<Rightarrow> IPState WidgetView" where
  "defLight X element =
     \<lparr>wname = toCString (getAttribute element ''name''),
      wlabel = toCString (getAttribute element ''label''),
      wdata = setIPState X IPS_IDLE (Some (pcdata element))\<rparr>"

definition defBLOB :: "XMLEle \<Rightarrow> IBLOB WidgetView" where
  "defBLOB element =
     \<lparr>wname = toCString (getAttribute element ''name''),
      wlabel = toCString (getAttribute element ''label''),
      wdata = \<lparr>bformat = toCString (getAttribute element ''format''),
               blob = [], bloblen = 0, bsize = 0\<rparr>\<rparr>"

text \<open>
  The loop over the children of one sub-tag: a widget is pushed unless its name is the
  empty string.
\<close>

fun pushWidgets :: "(XMLEle \<Rightarrow> 'v WidgetView) \<Rightarrow> XMLEle list \<Rightarrow> 'v WidgetView list" where
  "pushWidgets mk [] = []"
| "pushWidgets mk (element # rest) =
     (let widget = mk element
      in if \<not> (wname widget = []) then widget # pushWidgets mk rest
         else pushWidgets mk rest)"

text \<open>The \<open>switch\<close> on the kind; \<open>None\<close> is the case \<open>INDI_UNKNOWN\<close>, which returns -1.\<close>

fun typedProperty :: "Externals \<Rightarrow> INDI_PROPERTY_TYPE \<Rightarrow> XMLEle \<Rightarrow> Widgets option" where
  "typedProperty X INDI_NUMBER root' =
     Some (Numbers (pushWidgets (defNumber X) (getElementsByTagName root' ''defNumber'')))"
| "typedProperty X INDI_SWITCH root' =
     Some (Switches (pushWidgets (defSwitch X) (getElementsByTagName root' ''defSwitch'')))"
| "typedProperty X INDI_TEXT root' =
     Some (Texts (pushWidgets defText (getElementsByTagName root' ''defText'')))"
| "typedProperty X INDI_LIGHT root' =
     Some (Lights (pushWidgets (defLight X) (getElementsByTagName root' ''defLight'')))"
| "typedProperty X INDI_BLOB root' =
     Some (Blobs (pushWidgets defBLOB (getElementsByTagName root' ''defBLOB'')))"
| "typedProperty X INDI_UNKNOWN root' = None"

text \<open>
  The property handed to \<open>addProperty\<close>. Modelled from the spec: the class
  \<open>INDI::Property\<close> is outside the sources at hand; a property populated by a wire
  definition is a live entry (\<open>registered = true\<close>), and a Light has no permission
  attribute, so its permission stays the initial \<open>IP_RO\<close>.
\<close>

definition definedProperty ::
  "Externals \<Rightarrow> BaseDevicePrivate \<Rightarrow> XMLEle \<Rightarrow> INDI_PROPERTY_TYPE \<Rightarrow> bool \<Rightarrow> Widgets \<Rightarrow> Property"
  where
  "definedProperty X d root' rootTagType isDynamic ws =
     \<lparr>name = toCString (getAttribute root' ''name''),
      device = getDeviceName d,
      label = toCString (getAttribute root' ''label''),
      group = toCString (getAttribute root' ''group''),
      perm = (if rootTagType \<noteq> INDI_LIGHT then toIPerm X (getAttribute root' ''perm'')
              else IP_RO),
      state = setIPState X IPS_IDLE (getAttribute root' ''state''),
      timeout = asDouble X (getAttribute root' ''timeout''),
      registered = True,
      dynamic = isDynamic,
      widgets = ws\<rparr>"

text \<open>
  \<open>BaseDevice::buildProp\<close>. The duplicate test calls \<open>getProperty\<close> with the name only,
  that is for any kind (\<open>INDI_UNKNOWN\<close>).
\<close>

definition buildProp :: "Externals \<Rightarrow> BaseDevicePrivate \<Rightarrow> XMLEle \<Rightarrow> bool \<Rightarrow> Result" where
  "buildProp X d root' isDynamic =
     (case crackDN root' of
        Inl e \<Rightarrow> (- 1, Some e, d)
      | Inr dn \<Rightarrow>
          (case defTagType (tagName root') of
             None \<Rightarrow> (- 1, Some (UnableToProcessTag (tagName root')), d)
           | Some rootTagType \<Rightarrow>
               (let propertyName = toCString (getAttribute root' ''name'')
                in if isValid d (getProperty d propertyName INDI_UNKNOWN)
                   then (INDI_PROPERTY_DUPLICATED, None, d)
                   else
                     (let d1 = (if deviceName d = []
                                then d\<lparr>deviceName := toCString (getAttribute root' ''device'')\<rparr>
                                else d)
                      in case typedProperty X rootTagType root' of
                           None \<Rightarrow> (- 1, None, d1)
                         | Some ws \<Rightarrow>
                             (let property = definedProperty X d1 root' rootTagType isDynamic ws
                              in if isEmpty property then (0, None, d1)
                                 else
                                   (let d2 = addProperty property d1
                                    in (0, None,
                                        callMediator (NewProperty (length (pAll d2) - 1)) d2)))))))"


section \<open>Updates: \<open>BaseDevice::setValue\<close>\<close>

text \<open>
  Modelled from the spec: \<open>findWidgetByName\<close> of a property view, an exact-name lookup;
  the first widget with that name, as its position in the vector, and \<open>None\<close> is the
  null pointer.
\<close>

fun findWidgetFrom :: "'v WidgetView list \<Rightarrow> nat \<Rightarrow> string \<Rightarrow> nat option" where
  "findWidgetFrom [] i n = None"
| "findWidgetFrom (w # rest) i n =
     (if wname w = n then Some i else findWidgetFrom rest (Suc i) n)"

definition findWidgetByName :: "'v WidgetView list \<Rightarrow> string \<Rightarrow> nat option" where
  "findWidgetByName ws n = findWidgetFrom ws 0 n"

text \<open>
  The loop of \<open>for_property\<close> over the children of the update element: \<open>function\<close> is
  applied to the widget a child names, when there is one.
\<close>

fun for_property_loop ::
  "XMLEle list \<Rightarrow> 'v WidgetView list \<Rightarrow> (XMLEle \<Rightarrow> 'v WidgetView \<Rightarrow> 'v WidgetView)
     \<Rightarrow> 'v WidgetView list" where
  "for_property_loop [] ws function = ws"
| "for_property_loop (element # rest) ws function =
     (case findWidgetByName ws (toCString (getAttribute element ''name'')) of
        None \<Rightarrow> for_property_loop rest ws function
      | Some item \<Rightarrow> for_property_loop rest (ws[item := function element (ws ! item)]) function)"

definition for_property ::
  "XMLEle \<Rightarrow> 'v WidgetView list \<Rightarrow> (XMLEle \<Rightarrow> 'v WidgetView \<Rightarrow> 'v WidgetView)
     \<Rightarrow> 'v WidgetView list" where
  "for_property root' ws function = for_property_loop (getElements root') ws function"

definition emitUpdate :: "nat \<Rightarrow> BaseDevicePrivate \<Rightarrow> BaseDevicePrivate" where
  "emitUpdate h d = d\<lparr>calls := calls d @ [EmitUpdate h]\<rparr>"

text \<open>The four functions \<open>setValue\<close> passes to \<open>for_property\<close>.\<close>

definition oneNumber :: "Externals \<Rightarrow> XMLEle \<Rightarrow> INumber WidgetView \<Rightarrow> INumber WidgetView" where
  "oneNumber X element item =
     (let v = (wdata item)\<lparr>nvalue := asDouble X (Some (pcdata element))\<rparr>;
          v1 = (case getAttribute element ''min'' of
                  None \<Rightarrow> v | Some m \<Rightarrow> v\<lparr>nmin := asDouble X (Some m)\<rparr>);
          v2 = (case getAttribute element ''max'' of
                  None \<Rightarrow> v1 | Some m \<Rightarrow> v1\<lparr>nmax := asDouble X (Some m)\<rparr>)
      in item\<lparr>wdata := v2\<rparr>)"

definition oneSwitch :: "Externals \<Rightarrow> XMLEle \<Rightarrow> ISState WidgetView \<Rightarrow> ISState WidgetView" where
  "oneSwitch X element item = item\<lparr>wdata := setISState X (wdata item) (pcdata element)\<rparr>"

definition oneText :: "XMLEle \<Rightarrow> string WidgetView \<Rightarrow> string WidgetView" where
  "oneText element item = item\<lparr>wdata := pcdata element\<rparr>"

definition oneLight :: "Externals \<Rightarrow> XMLEle \<Rightarrow> IPState WidgetView \<Rightarrow> IPState WidgetView" where
  "oneLight X element item =
     item\<lparr>wdata := setIPState X (wdata item) (Some (pcdata element))\<rparr>"

text \<open>
  \<open>for_property<TypedProperty>\<close> on the property behind a handle: the widget vector of
  the entry is replaced by the updated one, then \<open>emitUpdate\<close>.
\<close>

fun updateWidgets :: "Externals \<Rightarrow> XMLEle \<Rightarrow> Widgets \<Rightarrow> Widgets" where
  "updateWidgets X root' (Numbers ws) = Numbers (for_property root' ws (oneNumber X))"
| "updateWidgets X root' (Switches ws) = Switches (for_property root' ws (oneSwitch X))"
| "updateWidgets X root' (Texts ws) = Texts (for_property root' ws oneText)"
| "updateWidgets X root' (Lights ws) = Lights (for_property root' ws (oneLight X))"
| "updateWidgets X root' (Blobs ws) = Blobs ws"
| "updateWidgets X root' NoWidgets = NoWidgets"

definition for_typed_property ::
  "Externals \<Rightarrow> XMLEle \<Rightarrow> nat \<Rightarrow> BaseDevicePrivate \<Rightarrow> BaseDevicePrivate" where
  "for_typed_property X root' h d =
     emitUpdate h (updateProperty h (\<lambda>p. p\<lparr>widgets := updateWidgets X root' (widgets p)\<rparr>) d)"

text \<open>The table \<open>tagTypeName\<close> of \<open>setValue\<close>, searched by tag.\<close>

definition setTagType :: "string \<Rightarrow> INDI_PROPERTY_TYPE option" where
  "setTagType t =
     (if t = ''setNumberVector'' then Some INDI_NUMBER
      else if t = ''setSwitchVector'' then Some INDI_SWITCH
      else if t = ''setTextVector'' then Some INDI_TEXT
      else if t = ''setLightVector'' then Some INDI_LIGHT
      else if t = ''setBLOBVector'' then Some INDI_BLOB
      else None)"

subsection \<open>\<open>BaseDevicePrivate::setBLOB\<close>\<close>

definition endsWith :: "string \<Rightarrow> string \<Rightarrow> bool" where
  "endsWith s t = (length t \<le> length s \<and> drop (length s - length t) s = t)"

text \<open>The position of the last occurrence of \<open>t\<close> in \<open>s\<close>; \<open>None\<close> is \<open>npos\<close>.\<close>

definition lastIndexOf :: "string \<Rightarrow> string \<Rightarrow> nat option" where
  "lastIndexOf s t =
     (case filter (\<lambda>i. take (length t) (drop i s) = t) (rev [0..<Suc (length s)]) of
        [] \<Rightarrow> None
      | i # _ \<Rightarrow> Some i)"

definition substr0 :: "string \<Rightarrow> nat option \<Rightarrow> string" where
  "substr0 s n = (case n of None \<Rightarrow> s | Some k \<Rightarrow> take k s)"

definition getBlobs :: "BaseDevicePrivate \<Rightarrow> nat \<Rightarrow> IBLOB WidgetView list" where
  "getBlobs d h = (case widgets (pAll d ! h) of Blobs ws \<Rightarrow> ws | _ \<Rightarrow> [])"

text \<open>A write through the widget pointer \<open>w\<close> of the BLOB property behind \<open>h\<close>.\<close>

definition setWidget ::
  "nat \<Rightarrow> nat \<Rightarrow> (IBLOB \<Rightarrow> IBLOB) \<Rightarrow> BaseDevicePrivate \<Rightarrow> BaseDevicePrivate" where
  "setWidget h w f d =
     updateProperty h
       (\<lambda>p. case widgets p of
               Blobs ws \<Rightarrow> p\<lparr>widgets := Blobs (ws[w := (ws ! w)\<lparr>wdata := f (wdata (ws ! w))\<rparr>])\<rparr>
             | _ \<Rightarrow> p) d"

text \<open>
  The payload of one \<open>oneBLOB\<close> child, stored in the widget; the size attribute was
  converted to \<open>sz\<close>, and a \<open>size_t\<close> made from it is \<open>sz mod 2 ^ 64\<close>.
  \<^item> A shared buffer attached directly becomes the buffer of the widget.
  \<^item> Otherwise the shared buffer is copied: the buffer of the widget is reallocated
    to the size, with no test of the result, and that many bytes are copied from the
    attached buffer.
  \<^item> Without an attachment the buffer is reallocated to three quarters of the length
    of the child's text, with no test of the result, and the base64 decoder is given
    the text of the root element, with the length of the child's text.
\<close>

definition storePayload ::
  "Externals \<Rightarrow> XMLEle \<Rightarrow> XMLEle \<Rightarrow> int \<Rightarrow> IBLOB \<Rightarrow> Fault + IBLOB" where
  "storePayload X root' element sz b =
     (case getAttribute element ''attached-data-id'' of
        Some attachementId \<Rightarrow>
          (case getAttribute element ''attachment-direct'' of
             Some directAttachment \<Rightarrow>
               Inr (b\<lparr>blob := attachBlobByUid X attachementId sz, bloblen := sz\<rparr>)
           | None \<Rightarrow>
               (let k = nat (sz mod 2 ^ 64);
                    tmp = attachBlobByUid X attachementId sz
                in if \<not> malloc X k then Inl NullBufferAccess
                   else if length tmp < k then Inl OutOfBoundsAccess
                   else Inr (b\<lparr>blob := take k tmp, bloblen := sz\<rparr>)))
      | None \<Rightarrow>
          (let base64_encoded_size = length (pcdata element);
               base64_decoded_size = 3 * base64_encoded_size div 4
           in if length (pcdata root') < base64_encoded_size then Inl OutOfBoundsAccess
              else
                (let bits = from64tobits_fast X (pcdata root') base64_encoded_size
                 in if bits \<noteq> [] \<and> \<not> malloc X base64_decoded_size
                    then Inl NullBufferAccess
                    else Inr (b\<lparr>blob := bits, bloblen := int (length bits)\<rparr>))))"

text \<open>What one pass of the loop of \<open>setBLOB\<close> ends in.\<close>

datatype Flow = Continue BaseDevicePrivate | Return Result | Crash Fault

text \<open>
  The branch of \<open>setBLOB\<close> for a format that ends in \<open>.z\<close>, entered with the payload
  stored in the widget \<open>w\<close>: the format is stored without the suffix, a buffer of the
  size of the widget is allocated, and zlib inflates the first \<open>bloblen\<close> bytes of the
  payload into it.
\<close>

definition inflateBLOB ::
  "Externals \<Rightarrow> nat \<Rightarrow> nat \<Rightarrow> string \<Rightarrow> BaseDevicePrivate \<Rightarrow> Flow" where
  "inflateBLOB X h w format d2 =
     (let d3 = setWidget h w
                 (\<lambda>b. b\<lparr>bformat := substr0 format (lastIndexOf format ''.z'')\<rparr>) d2;
          b3 = wdata (getBlobs d3 h ! w);
          dataSize = nat (bsize b3 mod 2 ^ 64);
          sourceLen = nat (bloblen b3 mod 2 ^ 64)
      in if \<not> malloc X dataSize then Return (- 1, Some AllocFailure, d3)
         else if length (blob b3) < sourceLen then Crash OutOfBoundsAccess
         else
           (let (r, dataBuffer) = uncompress X dataSize (take sourceLen (blob b3))
            in if r \<noteq> Z_OK
               then Return (- 1,
                      Some (CompressionError (device (pAll d3 ! h)) (name (pAll d3 ! h))
                              (wname (getBlobs d3 h ! w)) r),
                      d3)
               else Continue
                      (callMediator (NewBLOB h (Some w))
                         (setWidget h w
                            (\<lambda>b. b\<lparr>bsize := int (length dataBuffer), blob := dataBuffer\<rparr>)
                            d3))))"

text \<open>The body of the loop of \<open>setBLOB\<close>, for one \<open>oneBLOB\<close> child.\<close>

definition oneBLOB ::
  "Externals \<Rightarrow> XMLEle \<Rightarrow> nat \<Rightarrow> XMLEle \<Rightarrow> BaseDevicePrivate \<Rightarrow> Flow" where
  "oneBLOB X root' h element d =
     (let name' = getAttribute element ''name'';
          format = getAttribute element ''format'';
          size' = getAttribute element ''size'';
          widget = findWidgetByName (getBlobs d h) (toCString name')
      in if name' = None \<or> format = None \<or> size' = None
         then Return (- 1,
                Some (NoValidMembers (device (pAll d ! h)) (name (pAll d ! h)) (toCString name')),
                d)
         else if toInt X size' = 0 then Continue (callMediator (NewBLOB h widget) d)
         else
           (case widget of
              None \<Rightarrow> Crash NullWidgetAccess
            | Some w \<Rightarrow>
                (let d1 = setWidget h w (\<lambda>b. b\<lparr>bsize := toInt X size'\<rparr>) d
                 in case storePayload X root' element (toInt X size')
                           (wdata (getBlobs d1 h ! w)) of
                      Inl fault \<Rightarrow> Crash fault
                    | Inr payload \<Rightarrow>
                        (let d2 = setWidget h w (\<lambda>b. payload) d1
                         in if endsWith (toCString format) ''.z''
                            then inflateBLOB X h w (toCString format) d2
                            else Continue
                                   (callMediator (NewBLOB h (Some w))
                                      (setWidget h w
                                         (\<lambda>b. b\<lparr>bformat := toCString format\<rparr>) d2))))))"

fun setBLOB_loop ::
  "Externals \<Rightarrow> XMLEle \<Rightarrow> nat \<Rightarrow> XMLEle list \<Rightarrow> BaseDevicePrivate \<Rightarrow> Fault + Result" where
  "setBLOB_loop X root' h [] d = Inr (0, None, d)"
| "setBLOB_loop X root' h (element # rest) d =
     (case oneBLOB X root' h element d of
        Continue d' \<Rightarrow> setBLOB_loop X root' h rest d'
      | Return r \<Rightarrow> Inr r
      | Crash f \<Rightarrow> Inl f)"

definition setBLOB ::
  "Externals \<Rightarrow> BaseDevicePrivate \<Rightarrow> nat \<Rightarrow> XMLEle \<Rightarrow> Fault + Result" where
  "setBLOB X d h root' = setBLOB_loop X root' h (getElementsByTagName root' ''oneBLOB'') d"

subsection \<open>\<open>setValue\<close>\<close>

text \<open>The \<open>switch\<close> on the kind at the end of \<open>setValue\<close>.\<close>

fun updateSpecific ::
  "Externals \<Rightarrow> INDI_PROPERTY_TYPE \<Rightarrow> XMLEle \<Rightarrow> nat \<Rightarrow> BaseDevicePrivate \<Rightarrow> Fault + Result"
  where
  "updateSpecific X INDI_NUMBER root' h d =
     Inr (0, None, callMediator (NewNumber h) (for_typed_property X root' h d))"
| "updateSpecific X INDI_SWITCH root' h d =
     Inr (0, None, callMediator (NewSwitch h) (for_typed_property X root' h d))"
| "updateSpecific X INDI_TEXT root' h d =
     Inr (0, None, callMediator (NewText h) (for_typed_property X root' h d))"
| "updateSpecific X INDI_LIGHT root' h d =
     Inr (0, None, callMediator (NewLight h) (for_typed_property X root' h d))"
| "updateSpecific X INDI_BLOB root' h d = setBLOB X d h root'"
| "updateSpecific X INDI_UNKNOWN root' h d = Inr (- 1, None, d)"

definition setValue :: "Externals \<Rightarrow> BaseDevicePrivate \<Rightarrow> XMLEle \<Rightarrow> Fault + Result" where
  "setValue X d root' =
     (if getAttribute root' ''name'' = None
      then Inr (- 1, Some (UnableToFindName (tagName root')), d)
      else
        (let d0 = checkMessage root' d
         in case setTagType (tagName root') of
              None \<Rightarrow> Inr (- 1, Some (UnableToProcessTag (tagName root')), d0)
            | Some rootTagType \<Rightarrow>
                (let propertyName = toCString (getAttribute root' ''name'');
                     property = getProperty d0 propertyName rootTagType
                 in case property of
                      None \<Rightarrow>
                        Inr (- 1, Some (CouldNotFindProperty propertyName (getDeviceName d0)), d0)
                    | Some h \<Rightarrow>
                        if \<not> isValid d0 property
                        then Inr (- 1,
                               Some (CouldNotFindProperty propertyName (getDeviceName d0)), d0)
                        else
                          (let (st, ok) = toIPState X (getAttribute root' ''state'');
                               d1 = updateProperty h (\<lambda>p. p\<lparr>state := st\<rparr>) d0
                           in if \<not> ok
                              then Inr (- 1,
                                     Some (BogusState (tagName root')
                                             (toCString (getAttribute root' ''state''))
                                             propertyName),
                                     d1)
                              else
                                (let (timeoutValue, ok') =
                                       toDouble X (getAttribute root' ''timeout'');
                                     d2 = (if ok'
                                           then updateProperty h
                                                  (\<lambda>p. p\<lparr>timeout := timeoutValue\<rparr>) d1
                                           else d1)
                                 in updateSpecific X rootTagType root' h d2)))))"


section \<open>An instance of the helpers, and concrete devices and elements\<close>

text \<open>
  Modelled from the spec: the converters are outside the sources at hand. The tokens are
  those of the wire grammar: \<open>state\<close> is one of Idle, Ok, Busy, Alert, \<open>perm\<close> one of
  ro, wo, rw, and a switch is On or Off.
\<close>

definition crackIPState :: "string \<Rightarrow> IPState option" where
  "crackIPState s =
     (if s = ''Idle'' then Some IPS_IDLE
      else if s = ''Ok'' then Some IPS_OK
      else if s = ''Busy'' then Some IPS_BUSY
      else if s = ''Alert'' then Some IPS_ALERT
      else None)"

definition crackISState :: "string \<Rightarrow> ISState option" where
  "crackISState s =
     (if s = ''On'' then Some ISS_ON else if s = ''Off'' then Some ISS_OFF else None)"

definition crackIPerm :: "string \<Rightarrow> IPerm option" where
  "crackIPerm s =
     (if s = ''ro'' then Some IP_RO
      else if s = ''wo'' then Some IP_WO
      else if s = ''rw'' then Some IP_RW
      else None)"

text \<open>Numbers in the examples are unsigned decimal integers.\<close>

fun decimalFrom :: "nat \<Rightarrow> string \<Rightarrow> nat option" where
  "decimalFrom acc [] = Some acc"
| "decimalFrom acc (c # cs) =
     (let v = (of_char c :: nat)
      in if 48 \<le> v \<and> v \<le> 57 then decimalFrom (10 * acc + (v - 48)) cs else None)"

definition decimal :: "string \<Rightarrow> nat option" where
  "decimal s = (if s = [] then None else decimalFrom 0 s)"

text \<open>
  The codecs of the examples are small stand-ins with the interface of the real ones:
  a character decodes to its byte, a compressed stream is the byte 120 followed by the
  plain bytes (\<open>Z_DATA_ERROR = -3\<close> without that byte, \<open>Z_BUF_ERROR = -5\<close> when the
  destination is too small or the source empty), and two shared buffers exist.
\<close>

definition exampleUncompress :: "nat \<Rightarrow> byte list \<Rightarrow> int \<times> byte list" where
  "exampleUncompress destLen src =
     (case src of
        [] \<Rightarrow> (- 5, [])
      | b # body \<Rightarrow>
          if b \<noteq> 120 then (- 3, [])
          else if length body \<le> destLen then (Z_OK, body)
          else (- 5, []))"

definition exampleAttach :: "string \<Rightarrow> int \<Rightarrow> byte list" where
  "exampleAttach uid sz =
     take (nat sz)
       (if uid = ''packed'' then [120, 1, 2, 3]
        else if uid = ''broken'' then [7, 7, 7, 7]
        else [])"

definition exampleExternals :: Externals where
  "exampleExternals =
     \<lparr>toIPState = (\<lambda>a. case a of
                      None \<Rightarrow> (IPS_OK, False)
                    | Some s \<Rightarrow> (case crackIPState s of
                                  None \<Rightarrow> (IPS_OK, False)
                                | Some v \<Rightarrow> (v, True))),
      toIPerm = (\<lambda>a. case a of
                    None \<Rightarrow> IP_RO
                  | Some s \<Rightarrow> (case crackIPerm s of None \<Rightarrow> IP_RO | Some v \<Rightarrow> v)),
      toDouble = (\<lambda>a. case a of
                     None \<Rightarrow> (0, False)
                   | Some s \<Rightarrow> (case decimal s of
                                 None \<Rightarrow> (0, False)
                               | Some k \<Rightarrow> (real k, True))),
      asDouble = (\<lambda>a. case a of
                     None \<Rightarrow> 0
                   | Some s \<Rightarrow> (case decimal s of None \<Rightarrow> 0 | Some k \<Rightarrow> real k)),
      toDoubleSexa = (\<lambda>s. case decimal s of None \<Rightarrow> 0 | Some k \<Rightarrow> real k),
      toInt = (\<lambda>a. case a of
                  None \<Rightarrow> 0
                | Some s \<Rightarrow> (case decimal s of None \<Rightarrow> 0 | Some k \<Rightarrow> int k)),
      setISState = (\<lambda>old s. case crackISState s of None \<Rightarrow> old | Some v \<Rightarrow> v),
      setIPState = (\<lambda>old a. case a of
                       None \<Rightarrow> old
                     | Some s \<Rightarrow> (case crackIPState s of None \<Rightarrow> old | Some v \<Rightarrow> v)),
      from64tobits_fast = (\<lambda>src k. map of_char (take k src)),
      attachBlobByUid = exampleAttach,
      malloc = (\<lambda>k. True),
      uncompress = exampleUncompress\<rparr>"

text \<open>
  A Number property \<open>TEMP\<close> with one widget \<open>T\<close> of the given value, and a BLOB property
  \<open>CCD1\<close> with one widget \<open>IMG\<close>.
\<close>

definition tempProperty :: "real \<Rightarrow> Property" where
  "tempProperty v =
     \<lparr>name = ''TEMP'', device = ''Scope'', label = [], group = [], perm = IP_RW,
      state = IPS_ALERT, timeout = 10, registered = True, dynamic = False,
      widgets = Numbers [\<lparr>wname = ''T'', wlabel = [],
                          wdata = \<lparr>nformat = [], nmin = 0, nmax = 100, nstep = 0,
                                   nvalue = v\<rparr>\<rparr>]\<rparr>"

definition ccdProperty :: Property where
  "ccdProperty =
     \<lparr>name = ''CCD1'', device = ''Scope'', label = [], group = [], perm = IP_RO,
      state = IPS_IDLE, timeout = 0, registered = True, dynamic = False,
      widgets = Blobs [\<lparr>wname = ''IMG'', wlabel = [],
                        wdata = \<lparr>bformat = ''.raw'', blob = [9, 9], bloblen = 2,
                                 bsize = 2\<rparr>\<rparr>]\<rparr>"

definition deviceWith :: "string \<Rightarrow> Property list \<Rightarrow> BaseDevicePrivate" where
  "deviceWith dev ps =
     \<lparr>deviceName = dev, pAll = ps, watchPropertyMap = [], mediator = True,
      messageLog = [], calls = []\<rparr>"

text \<open>The device \<open>Scope\<close> holding \<open>TEMP\<close> (value 5) and \<open>CCD1\<close>.\<close>

definition scope :: BaseDevicePrivate where
  "scope = deviceWith ''Scope'' [tempProperty 5, ccdProperty]"

text \<open>The same device when \<open>TEMP\<close> is a ghost entry, not registered.\<close>

definition ghostScope :: BaseDevicePrivate where
  "ghostScope = deviceWith ''Scope'' [(tempProperty 5)\<lparr>registered := False\<rparr>, ccdProperty]"

text \<open>
  \<open><defNumberVector device=dev name=nm state="Ok" perm="rw">\<close> with one child
  \<open><defNumber name=w>v</defNumber>\<close> for each pair \<open>(w, v)\<close>.
\<close>

definition defNumberVector :: "string \<Rightarrow> string \<Rightarrow> (string \<times> string) list \<Rightarrow> XMLEle" where
  "defNumberVector dev nm kids =
     XMLEle ''defNumberVector''
       [(''device'', dev), (''name'', nm), (''state'', ''Ok''), (''perm'', ''rw'')] []
       (map (\<lambda>(w, v). XMLEle ''defNumber'' [(''name'', w)] v []) kids)"

text \<open>\<open><setNumberVector device=dev name="TEMP" state=st timeout="60"> <oneNumber name=w>v\<close>.\<close>

definition setNumberVector :: "string \<Rightarrow> string \<Rightarrow> string \<Rightarrow> string \<Rightarrow> XMLEle" where
  "setNumberVector dev st w v =
     XMLEle ''setNumberVector''
       [(''device'', dev), (''name'', ''TEMP''), (''state'', st), (''timeout'', ''60'')] []
       [XMLEle ''oneNumber'' [(''name'', w)] v []]"

text \<open>\<open><setBLOBVector device="Scope" name="CCD1" state="Ok">\<close> with the given children.\<close>

definition setBLOBVector :: "XMLEle list \<Rightarrow> XMLEle" where
  "setBLOBVector children =
     XMLEle ''setBLOBVector''
       [(''device'', ''Scope''), (''name'', ''CCD1''), (''state'', ''Ok'')] [] children"

text \<open>A \<open>oneBLOB\<close> child with the given attributes and base64 text.\<close>

definition oneBLOBElement :: "(string \<times> string) list \<Rightarrow> string \<Rightarrow> XMLEle" where
  "oneBLOBElement as txt = XMLEle ''oneBLOB'' as txt []"


text \<open>A ghost \<open>TEMP\<close> (value 5) ahead of a registered \<open>TEMP\<close> (value 9).\<close>

definition ghostFirst :: BaseDevicePrivate where
  "ghostFirst =
     deviceWith ''Scope'' [(tempProperty 5)\<lparr>registered := False\<rparr>, tempProperty 9]"

text \<open>
  A device with a property of every kind, each behind a ghost entry of its own name and
  kind: the properties of \<open>scope\<close> and a Text, a Switch and a Light property.
\<close>

definition withWidgets :: "string \<Rightarrow> Widgets \<Rightarrow> Property" where
  "withWidgets nm ws =
     \<lparr>name = nm, device = ''Scope'', label = [], group = [], perm = IP_RO,
      state = IPS_IDLE, timeout = 0, registered = True, dynamic = False, widgets = ws\<rparr>"

definition everyKind :: BaseDevicePrivate where
  "everyKind =
     deviceWith ''Scope''
       [(tempProperty 5)\<lparr>registered := False\<rparr>, tempProperty 9,
        ccdProperty\<lparr>registered := False\<rparr>, ccdProperty,
        (withWidgets ''INFO'' (Texts []))\<lparr>registered := False\<rparr>,
        withWidgets ''INFO'' (Texts [\<lparr>wname = ''NAME'', wlabel = [], wdata = ''sim''\<rparr>]),
        (withWidgets ''CONNECTION'' (Switches []))\<lparr>registered := False\<rparr>,
        withWidgets ''CONNECTION''
          (Switches [\<lparr>wname = ''CONNECT'', wlabel = [], wdata = ISS_ON\<rparr>]),
        (withWidgets ''STATUS'' (Lights []))\<lparr>registered := False\<rparr>,
        withWidgets ''STATUS'' (Lights [\<lparr>wname = ''LINK'', wlabel = [], wdata = IPS_OK\<rparr>])]"


section \<open>Lookup\<close>

lemma getPropertyFrom_Some:
  "getPropertyFrom ps k n t = Some i \<Longrightarrow>
     k \<le> i \<and> i - k < length ps \<and> visible n t (ps ! (i - k)) \<and>
     (\<forall>j < i - k. \<not> visible n t (ps ! j))"
proof (induction ps arbitrary: k)
  case Nil
  then show ?case by simp
next
  case (Cons p ps)
  show ?case
  proof (cases "visible n t p")
    case True
    with Cons.prems have "i = k"
      by (auto simp: visible_def split: if_splits)
    with True show ?thesis by simp
  next
    case False
    with Cons.prems have rec: "getPropertyFrom ps (Suc k) n t = Some i"
      by (auto simp: visible_def split: if_splits)
    from Cons.IH [OF rec] have ih: "Suc k \<le> i" "i - Suc k < length ps"
      "visible n t (ps ! (i - Suc k))" "\<forall>j < i - Suc k. \<not> visible n t (ps ! j)"
      by auto
    from ih(1) have eq: "i - k = Suc (i - Suc k)" by arith
    have "\<forall>j < i - k. \<not> visible n t ((p # ps) ! j)"
    proof (intro allI impI)
      fix j assume "j < i - k"
      then show "\<not> visible n t ((p # ps) ! j)"
        using False ih(4) eq by (cases j) auto
    qed
    then show ?thesis using ih eq by auto
  qed
qed

lemma getPropertyFrom_None:
  "getPropertyFrom ps k n t = None \<longleftrightarrow> (\<forall>p \<in> set ps. \<not> visible n t p)"
  by (induction ps arbitrary: k) (auto simp: visible_def)

lemma getProperty_Some:
  "getProperty d n t = Some i \<Longrightarrow>
     i < length (pAll d) \<and> visible n t (pAll d ! i) \<and> (\<forall>j < i. \<not> visible n t (pAll d ! j))"
  using getPropertyFrom_Some [of "pAll d" 0 n t i] by (simp add: getProperty_def)

lemma getProperty_None:
  "getProperty d n t = None \<longleftrightarrow> (\<forall>p \<in> set (pAll d). \<not> visible n t p)"
  by (simp add: getProperty_def getPropertyFrom_None)

lemma getProperty_typed:
  "getProperty d n t = Some i \<Longrightarrow> t \<noteq> INDI_UNKNOWN \<Longrightarrow>
     registered (pAll d ! i) \<and> getType (pAll d ! i) = t"
  using getProperty_Some [of d n t i] by (auto simp: visible_def getRegistered_def)

text \<open>
  C9. \<open>getProperty\<close> never returns a property whose \<open>registered\<close> flag is false: the
  handle it returns is that of the first entry of \<open>pAll\<close> that is registered, has the
  name asked for and the kind asked for (any kind for \<open>INDI_UNKNOWN\<close>), every entry
  before it failing that test; with no such entry the lookup returns the invalid
  property. The typed getters \<open>getNumber\<close>, \<open>getText\<close>, \<open>getSwitch\<close>, \<open>getLight\<close> and
  \<open>getBLOB\<close> are that lookup for their kind: each returns what \<open>getProperty\<close> returns
  for the name and the kind, hence the first registered property of that name and kind,
  and never a ghost entry.
\<close>

theorem getProperty_never_ghost:
  "(case getProperty d n t of
      None \<Rightarrow> \<forall>p \<in> set (pAll d). \<not> visible n t p
    | Some i \<Rightarrow> i < length (pAll d) \<and> registered (pAll d ! i) \<and> visible n t (pAll d ! i) \<and>
               (\<forall>j < i. \<not> visible n t (pAll d ! j))) \<and>
   getNumber d n = getProperty d n INDI_NUMBER \<and>
   getText d n = getProperty d n INDI_TEXT \<and>
   getSwitch d n = getProperty d n INDI_SWITCH \<and>
   getLight d n = getProperty d n INDI_LIGHT \<and>
   getBLOB d n = getProperty d n INDI_BLOB \<and>
   (getNumber d n = Some i \<longrightarrow> registered (pAll d ! i) \<and> getType (pAll d ! i) = INDI_NUMBER \<and>
      name (pAll d ! i) = n \<and> (\<forall>j < i. \<not> visible n INDI_NUMBER (pAll d ! j))) \<and>
   (getText d n = Some i \<longrightarrow> registered (pAll d ! i) \<and> getType (pAll d ! i) = INDI_TEXT \<and>
      name (pAll d ! i) = n \<and> (\<forall>j < i. \<not> visible n INDI_TEXT (pAll d ! j))) \<and>
   (getSwitch d n = Some i \<longrightarrow> registered (pAll d ! i) \<and> getType (pAll d ! i) = INDI_SWITCH \<and>
      name (pAll d ! i) = n \<and> (\<forall>j < i. \<not> visible n INDI_SWITCH (pAll d ! j))) \<and>
   (getLight d n = Some i \<longrightarrow> registered (pAll d ! i) \<and> getType (pAll d ! i) = INDI_LIGHT \<and>
      name (pAll d ! i) = n \<and> (\<forall>j < i. \<not> visible n INDI_LIGHT (pAll d ! j))) \<and>
   (getBLOB d n = Some i \<longrightarrow> registered (pAll d ! i) \<and> getType (pAll d ! i) = INDI_BLOB \<and>
      name (pAll d ! i) = n \<and> (\<forall>j < i. \<not> visible n INDI_BLOB (pAll d ! j))) \<and>
   (getNumber d n = None \<longrightarrow> (\<forall>p \<in> set (pAll d). \<not> visible n INDI_NUMBER p)) \<and>
   (getText d n = None \<longrightarrow> (\<forall>p \<in> set (pAll d). \<not> visible n INDI_TEXT p)) \<and>
   (getSwitch d n = None \<longrightarrow> (\<forall>p \<in> set (pAll d). \<not> visible n INDI_SWITCH p)) \<and>
   (getLight d n = None \<longrightarrow> (\<forall>p \<in> set (pAll d). \<not> visible n INDI_LIGHT p)) \<and>
   (getBLOB d n = None \<longrightarrow> (\<forall>p \<in> set (pAll d). \<not> visible n INDI_BLOB p))"
proof -
  have look: "case getProperty d n t of
      None \<Rightarrow> \<forall>p \<in> set (pAll d). \<not> visible n t p
    | Some i \<Rightarrow> i < length (pAll d) \<and> registered (pAll d ! i) \<and> visible n t (pAll d ! i) \<and>
               (\<forall>j < i. \<not> visible n t (pAll d ! j))"
  proof (cases "getProperty d n t")
    case None
    then show ?thesis using getProperty_None [of d n t] by simp
  next
    case (Some k)
    from getProperty_Some [OF Some] show ?thesis
      using Some by (simp add: visible_def getRegistered_def)
  qed
  have typed: "\<And>k. k \<noteq> INDI_UNKNOWN \<Longrightarrow> getProperty d n k = Some i \<Longrightarrow>
      registered (pAll d ! i) \<and> getType (pAll d ! i) = k \<and> name (pAll d ! i) = n \<and>
      (\<forall>j < i. \<not> visible n k (pAll d ! j))"
  proof -
    fix k assume k: "k \<noteq> INDI_UNKNOWN" and f: "getProperty d n k = Some i"
    from getProperty_Some [OF f] getProperty_typed [OF f k]
    show "registered (pAll d ! i) \<and> getType (pAll d ! i) = k \<and> name (pAll d ! i) = n \<and>
      (\<forall>j < i. \<not> visible n k (pAll d ! j))"
      by (simp add: visible_def isNameMatch_def)
  qed
  have none: "\<And>k. getProperty d n k = None \<Longrightarrow> (\<forall>p \<in> set (pAll d). \<not> visible n k p)"
    using getProperty_None [of d n] by simp
  show ?thesis
    using look typed [of INDI_NUMBER] typed [of INDI_TEXT] typed [of INDI_SWITCH]
      typed [of INDI_LIGHT] typed [of INDI_BLOB]
      none [of INDI_NUMBER] none [of INDI_TEXT] none [of INDI_SWITCH]
      none [of INDI_LIGHT] none [of INDI_BLOB]
    by (simp add: getNumber_def getText_def getSwitch_def getLight_def getBLOB_def
        getRawProperty_def)
qed

lemmas ex_defs = deviceWith_def tempProperty_def ccdProperty_def

theorem getProperty_never_ghost_witness:
  "getProperty ghostFirst ''TEMP'' INDI_NUMBER = Some 1 \<and>
   \<not> registered (pAll ghostFirst ! 0) \<and> name (pAll ghostFirst ! 0) = ''TEMP'' \<and>
   registered (pAll ghostFirst ! 1) \<and> getType (pAll ghostFirst ! 1) = INDI_NUMBER \<and>
   visible ''TEMP'' INDI_NUMBER (pAll ghostFirst ! 1) \<and>
   widgets (pAll ghostFirst ! 1) = widgets (tempProperty 9) \<and>
   getNumber everyKind ''TEMP'' = Some 1 \<and> registered (pAll everyKind ! 1) \<and>
   getBLOB everyKind ''CCD1'' = Some 3 \<and> registered (pAll everyKind ! 3) \<and>
   getText everyKind ''INFO'' = Some 5 \<and> registered (pAll everyKind ! 5) \<and>
   getSwitch everyKind ''CONNECTION'' = Some 7 \<and> registered (pAll everyKind ! 7) \<and>
   getLight everyKind ''STATUS'' = Some 9 \<and> registered (pAll everyKind ! 9) \<and>
   getText everyKind ''TEMP'' = None \<and> getNumber everyKind ''GAIN'' = None"
proof -
  note look = getProperty_def getType_def getRegistered_def isNameMatch_def
  have found: "getProperty ghostFirst ''TEMP'' INDI_NUMBER = Some 1"
    by (simp add: look ghostFirst_def ex_defs)
  have kinds: "getProperty everyKind ''TEMP'' INDI_NUMBER = Some 1"
    "getProperty everyKind ''CCD1'' INDI_BLOB = Some 3"
    "getProperty everyKind ''INFO'' INDI_TEXT = Some 5"
    "getProperty everyKind ''CONNECTION'' INDI_SWITCH = Some 7"
    "getProperty everyKind ''STATUS'' INDI_LIGHT = Some 9"
    "getProperty everyKind ''TEMP'' INDI_TEXT = None"
    "getProperty everyKind ''GAIN'' INDI_NUMBER = None"
    by (simp_all add: look everyKind_def withWidgets_def ex_defs)
  from getProperty_never_ghost [of ghostFirst "''TEMP''" INDI_NUMBER 1] found
  have first: "registered (pAll ghostFirst ! 1) \<and>
      visible ''TEMP'' INDI_NUMBER (pAll ghostFirst ! 1) \<and>
      getType (pAll ghostFirst ! 1) = INDI_NUMBER"
    by simp
  from getProperty_never_ghost [of everyKind "''TEMP''" INDI_NUMBER 1] kinds
  have g1: "getNumber everyKind ''TEMP'' = Some 1 \<and> registered (pAll everyKind ! 1) \<and>
      getText everyKind ''TEMP'' = None"
    by simp
  from getProperty_never_ghost [of everyKind "''CCD1''" INDI_BLOB 3] kinds
  have g2: "getBLOB everyKind ''CCD1'' = Some 3 \<and> registered (pAll everyKind ! 3)"
    by simp
  from getProperty_never_ghost [of everyKind "''INFO''" INDI_TEXT 5] kinds
  have g3: "getText everyKind ''INFO'' = Some 5 \<and> registered (pAll everyKind ! 5)"
    by simp
  from getProperty_never_ghost [of everyKind "''CONNECTION''" INDI_SWITCH 7] kinds
  have g4: "getSwitch everyKind ''CONNECTION'' = Some 7 \<and> registered (pAll everyKind ! 7)"
    by simp
  from getProperty_never_ghost [of everyKind "''STATUS''" INDI_LIGHT 9] kinds
  have g5: "getLight everyKind ''STATUS'' = Some 9 \<and> registered (pAll everyKind ! 9)"
    by simp
  from getProperty_never_ghost [of everyKind "''GAIN''" INDI_NUMBER 0] kinds
  have g6: "getNumber everyKind ''GAIN'' = None"
    by simp
  show ?thesis
    using found first g1 g2 g3 g4 g5 g6 by (simp add: ghostFirst_def ex_defs)
qed

section \<open>Definitions\<close>

lemma pushWidgets_named: "[] \<notin> wname ` set (pushWidgets mk es)"
  by (induction es) (auto simp: Let_def split: if_splits)

lemma typedProperty_named:
  "typedProperty X ty root' = Some ws \<Longrightarrow> [] \<notin> set (widgetNames ws)"
  by (cases ty) (auto simp: pushWidgets_named)

lemma widgets_definedProperty [simp]:
  "widgets (definedProperty X d root' ty isDynamic ws) = ws"
  by (simp add: definedProperty_def)

lemma pAll_addProperty [simp]: "pAll (addProperty p d) = pAll d @ [p]"
  by (simp add: addProperty_def Let_def)

lemma deviceName_addProperty [simp]: "deviceName (addProperty p d) = deviceName d"
  by (simp add: addProperty_def Let_def)

lemma pAll_callMediator [simp]: "pAll (callMediator e d) = pAll d"
  by (simp add: callMediator_def)

lemma deviceName_callMediator [simp]: "deviceName (callMediator e d) = deviceName d"
  by (simp add: callMediator_def)

lemma buildProp_pAll:
  assumes "buildProp X d root' isDynamic = (rc, msg, d')"
  shows "pAll d' = pAll d \<or>
         (\<exists>p. pAll d' = pAll d @ [p] \<and> widgetNames (widgets p) \<noteq> [] \<and>
              [] \<notin> set (widgetNames (widgets p)))"
  using assms
  by (auto simp: buildProp_def Let_def isEmpty_def dest: typedProperty_named
      split: sum.splits option.splits if_splits)

lemma buildProp_empty:
  assumes "buildProp X d root' isDynamic = (rc, msg, d')"
    and "defTagType (tagName root') = Some ty" and "typedProperty X ty root' = Some ws"
    and "widgetNames ws = []"
  shows "pAll d' = pAll d \<and> calls d' = calls d \<and>
         (\<not> isl (crackDN root') \<and>
          \<not> isValid d (getProperty d (toCString (getAttribute root' ''name'')) INDI_UNKNOWN)
            \<longrightarrow> rc = 0 \<and> msg = None)"
  using assms
  by (auto simp: buildProp_def Let_def isEmpty_def split: sum.splits option.splits if_splits)

text \<open>
  C5. When \<open>buildProp\<close> builds a property from a definition element, a child whose name
  attribute is empty (or absent) is never added to it: the registry after the call is
  the registry before it, or that registry with one property appended which has at
  least one widget and no widget with an empty name. When the children give no widget
  at all, nothing is added to the registry and the mediator is not called, and the call
  is not an error: for an element that has its device and name attributes and names no
  visible property it returns 0 and writes no message.
\<close>

theorem buildProp_unnamed_dropped_empty_rejected:
  "buildProp X d root' isDynamic = (rc, msg, d') \<Longrightarrow>
     (pAll d' = pAll d \<or>
       (\<exists>p. pAll d' = pAll d @ [p] \<and> widgetNames (widgets p) \<noteq> [] \<and>
            [] \<notin> set (widgetNames (widgets p)))) \<and>
     (\<forall>ty ws. defTagType (tagName root') = Some ty \<and> typedProperty X ty root' = Some ws \<and>
               widgetNames ws = [] \<longrightarrow>
        pAll d' = pAll d \<and> calls d' = calls d \<and>
        (\<not> isl (crackDN root') \<and>
         \<not> isValid d (getProperty d (toCString (getAttribute root' ''name'')) INDI_UNKNOWN)
           \<longrightarrow> rc = 0 \<and> msg = None))"
  using buildProp_pAll [of X d root' isDynamic rc msg d']
    buildProp_empty [of X d root' isDynamic rc msg d']
  by blast


lemmas ext_defs = exampleExternals_def crackIPState_def crackISState_def crackIPerm_def
  decimal_def
lemmas build_defs = buildProp_def crackDN_def defTagType_def getAttribute_def toCString_def
  getProperty_def isValid_def getType_def getRegistered_def isNameMatch_def
  getElementsByTagName_def defNumber_def definedProperty_def isEmpty_def getDeviceName_def
  addProperty_def callMediator_def

theorem buildProp_unnamed_dropped_empty_rejected_witness:
  "buildProp exampleExternals scope (defNumberVector ''Scope'' ''GAIN'' [([], ''1'')]) False
     = (0, None, scope) \<and>
   (\<exists>p. pAll (snd (snd (buildProp exampleExternals scope
                 (defNumberVector ''Scope'' ''GAIN'' [([], ''1''), (''G'', ''2'')]) False)))
          = pAll scope @ [p] \<and> widgetNames (widgets p) = [''G''])"
proof -
  let ?e = "defNumberVector ''Scope'' ''GAIN'' [([], ''1'')]"
  let ?e2 = "defNumberVector ''Scope'' ''GAIN'' [([], ''1''), (''G'', ''2'')]"
  obtain rc msg d' where run: "buildProp exampleExternals scope ?e False = (rc, msg, d')"
    by (cases "buildProp exampleExternals scope ?e False") auto
  have shape: "defTagType (tagName ?e) = Some INDI_NUMBER \<and>
      typedProperty exampleExternals INDI_NUMBER ?e = Some (Numbers []) \<and>
      widgetNames (Numbers []) = []"
    by (simp add: defNumberVector_def build_defs)
  have ok: "\<not> isl (crackDN ?e) \<and>
      \<not> isValid scope (getProperty scope (toCString (getAttribute ?e ''name'')) INDI_UNKNOWN)"
    by (simp add: defNumberVector_def build_defs scope_def ex_defs)
  from buildProp_unnamed_dropped_empty_rejected [OF run] shape ok
  have res: "pAll d' = pAll scope \<and> calls d' = calls scope \<and> rc = 0 \<and> msg = None"
    by blast
  have rest: "deviceName d' = deviceName scope \<and> watchPropertyMap d' = watchPropertyMap scope \<and>
      mediator d' = mediator scope \<and> messageLog d' = messageLog scope"
    using run by (simp add: defNumberVector_def build_defs scope_def ex_defs)
  have first: "buildProp exampleExternals scope ?e False = (0, None, scope)"
    using run res rest by simp
  obtain rc2 msg2 d2 where run2: "buildProp exampleExternals scope ?e2 False = (rc2, msg2, d2)"
    by (cases "buildProp exampleExternals scope ?e2 False") auto
  have grown: "pAll d2 \<noteq> pAll scope"
    using run2 by (auto simp: defNumberVector_def build_defs scope_def ex_defs)
  from buildProp_unnamed_dropped_empty_rejected [OF run2] grown
  obtain p where p: "pAll d2 = pAll scope @ [p]" "[] \<notin> set (widgetNames (widgets p))"
    by blast
  have "widgetNames (widgets (last (pAll d2))) = [''G'']"
    using run2 by (auto simp: defNumberVector_def build_defs scope_def ex_defs)
  with p have "widgetNames (widgets p) = [''G'']" by simp
  with p run2 first show ?thesis by auto
qed


section \<open>Duplicate definitions\<close>

lemma defTagType_known: "defTagType t = Some ty \<Longrightarrow> typedProperty X ty root' \<noteq> None"
  by (auto simp: defTagType_def split: if_splits)

lemma buildProp_not_found:
  assumes "crackDN root' = Inr dn" and "defTagType (tagName root') = Some ty"
    and "\<not> isValid d (getProperty d (toCString (getAttribute root' ''name'')) INDI_UNKNOWN)"
  shows "fst (buildProp X d root' isDynamic) = 0"
proof -
  from defTagType_known [OF assms(2)] obtain ws where "typedProperty X ty root' = Some ws"
    by auto
  with assms show ?thesis
    by (simp add: buildProp_def Let_def)
qed

text \<open>
  C2 (as amended). A definition element that has its device and name attributes and a
  definition tag, and whose name is that of a property \<open>getProperty\<close> finds (a
  registered entry of a known kind), is rejected: \<open>buildProp\<close> returns
  \<open>INDI_PROPERTY_DUPLICATED\<close>, writes no message and leaves the device as it was, so any
  later lookup returns what it returned before, with the same widget values. When
  \<open>getProperty\<close> finds no such property, as for a name that only a ghost entry has,
  the definition is not rejected as a duplicate: \<open>buildProp\<close> returns 0.
\<close>

theorem buildProp_duplicate_rejected:
  "crackDN root' = Inr dn \<Longrightarrow> defTagType (tagName root') = Some ty \<Longrightarrow>
   (\<forall>i. getProperty d (toCString (getAttribute root' ''name'')) INDI_UNKNOWN = Some i \<and>
        getType (pAll d ! i) \<noteq> INDI_UNKNOWN \<longrightarrow>
        buildProp X d root' isDynamic = (INDI_PROPERTY_DUPLICATED, None, d)) \<and>
   (\<not> isValid d (getProperty d (toCString (getAttribute root' ''name'')) INDI_UNKNOWN) \<longrightarrow>
        fst (buildProp X d root' isDynamic) = 0 \<and>
        fst (buildProp X d root' isDynamic) \<noteq> INDI_PROPERTY_DUPLICATED)"
  using buildProp_not_found [of root' dn ty d X isDynamic]
  by (simp add: buildProp_def isValid_def INDI_PROPERTY_DUPLICATED_def)

theorem buildProp_duplicate_rejected_witness:
  "crackDN (defNumberVector ''Scope'' ''TEMP'' [(''T'', ''9'')]) = Inr (''Scope'', ''TEMP'') \<and>
   getProperty scope ''TEMP'' INDI_UNKNOWN = Some 0 \<and>
   buildProp exampleExternals scope (defNumberVector ''Scope'' ''TEMP'' [(''T'', ''9'')]) False
     = (INDI_PROPERTY_DUPLICATED, None, scope) \<and>
   widgets (pAll scope ! 0) = widgets (tempProperty 5) \<and>
   \<not> isValid ghostScope (getProperty ghostScope ''TEMP'' INDI_UNKNOWN) \<and>
   fst (buildProp exampleExternals ghostScope
          (defNumberVector ''Scope'' ''TEMP'' [([], ''9'')]) False) = 0"
proof -
  let ?e = "defNumberVector ''Scope'' ''TEMP'' [(''T'', ''9'')]"
  let ?u = "defNumberVector ''Scope'' ''TEMP'' [([], ''9'')]"
  have dn: "crackDN ?e = Inr (''Scope'', ''TEMP'')" "crackDN ?u = Inr (''Scope'', ''TEMP'')"
    by (simp_all add: defNumberVector_def crackDN_def getAttribute_def)
  have tag: "defTagType (tagName ?e) = Some INDI_NUMBER"
    "defTagType (tagName ?u) = Some INDI_NUMBER"
    by (simp_all add: defNumberVector_def defTagType_def)
  have nm: "toCString (getAttribute ?e ''name'') = ''TEMP''"
    "toCString (getAttribute ?u ''name'') = ''TEMP''"
    by (simp_all add: defNumberVector_def toCString_def getAttribute_def)
  have found: "getProperty scope ''TEMP'' INDI_UNKNOWN = Some 0"
    by (simp add: build_defs scope_def ex_defs)
  have known: "getType (pAll scope ! 0) \<noteq> INDI_UNKNOWN"
    by (simp add: getType_def scope_def ex_defs)
  have ghost: "\<not> isValid ghostScope (getProperty ghostScope ''TEMP'' INDI_UNKNOWN)"
    by (simp add: build_defs ghostScope_def ex_defs)
  from buildProp_duplicate_rejected [OF dn(1) tag(1), of scope exampleExternals False]
    found known nm
  have one: "buildProp exampleExternals scope ?e False = (INDI_PROPERTY_DUPLICATED, None, scope)"
    by simp
  from buildProp_duplicate_rejected [OF dn(2) tag(2), of ghostScope exampleExternals False]
    ghost nm
  have two: "fst (buildProp exampleExternals ghostScope ?u False) = 0"
    by simp
  show ?thesis using dn(1) found one two ghost by (simp add: scope_def ex_defs)
qed

text \<open>
  The claim as stated fails when the existing property is a ghost entry: \<open>TEMP\<close> is in
  the device, yet a definition of \<open>TEMP\<close> is accepted with return code 0, a second
  \<open>TEMP\<close> is appended, and a lookup afterwards returns the new property (value 9).
\<close>

theorem buildProp_duplicate_ghost_counterexample:
  "name (pAll ghostScope ! 0) = ''TEMP'' \<and>
   fst (buildProp exampleExternals ghostScope
          (defNumberVector ''Scope'' ''TEMP'' [(''T'', ''9'')]) False) = 0 \<and>
   0 \<noteq> INDI_PROPERTY_DUPLICATED \<and>
   length (pAll (snd (snd (buildProp exampleExternals ghostScope
          (defNumberVector ''Scope'' ''TEMP'' [(''T'', ''9'')]) False)))) = 3 \<and>
   getProperty (snd (snd (buildProp exampleExternals ghostScope
          (defNumberVector ''Scope'' ''TEMP'' [(''T'', ''9'')]) False))) ''TEMP'' INDI_UNKNOWN
     = Some 2 \<and>
   widgets (pAll (snd (snd (buildProp exampleExternals ghostScope
          (defNumberVector ''Scope'' ''TEMP'' [(''T'', ''9'')]) False))) ! 2) =
     Numbers [\<lparr>wname = ''T'', wlabel = [],
               wdata = \<lparr>nformat = [], nmin = 0, nmax = 0, nstep = 0, nvalue = 9\<rparr>\<rparr>]"
  by (simp add: defNumberVector_def build_defs ghostScope_def ex_defs ext_defs
      INDI_PROPERTY_DUPLICATED_def Let_def)

section \<open>The device name\<close>

lemma deviceName_updateProperty [simp]: "deviceName (updateProperty h f d) = deviceName d"
  by (simp add: updateProperty_def)

lemma deviceName_setWidget [simp]: "deviceName (setWidget h w f d) = deviceName d"
  by (simp add: setWidget_def)

lemma deviceName_emitUpdate [simp]: "deviceName (emitUpdate h d) = deviceName d"
  by (simp add: emitUpdate_def)

lemma deviceName_checkMessage [simp]: "deviceName (checkMessage root' d) = deviceName d"
  by (simp add: checkMessage_def doMessage_def addMessage_def Let_def split: option.splits)









lemmas set_defs = setValue_def setTagType_def checkMessage_def getAttribute_def toCString_def
  getProperty_def isValid_def getType_def getRegistered_def isNameMatch_def
  updateProperty_def for_typed_property_def for_property_def findWidgetByName_def
  emitUpdate_def callMediator_def getDeviceName_def




section \<open>Updates with an invalid state\<close>

lemma setTagType_known: "setTagType t = Some ty \<Longrightarrow> ty \<noteq> INDI_UNKNOWN"
  by (auto simp: setTagType_def split: if_splits)

text \<open>
  For any converters: when \<open>toIPState\<close> reports failure, \<open>setValue\<close> has already stored
  the value the converter returned as the state of the property, and returns -1 with
  nothing else of the property written.
\<close>

lemma setValue_invalid_state_general:
  assumes "getAttribute root' ''name'' = Some n" and "setTagType (tagName root') = Some ty"
    and "getProperty (checkMessage root' d) n ty = Some h"
    and "toIPState X (getAttribute root' ''state'') = (st, False)"
  shows "setValue X d root' =
           Inr (- 1,
                Some (BogusState (tagName root') (toCString (getAttribute root' ''state'')) n),
                updateProperty h (\<lambda>p. p\<lparr>state := st\<rparr>) (checkMessage root' d))"
proof -
  from assms(2) have "ty \<noteq> INDI_UNKNOWN" by (rule setTagType_known)
  with getProperty_typed [OF assms(3)] have "isValid (checkMessage root' d) (Some h)"
    by (simp add: isValid_def)
  with assms show ?thesis
    by (simp add: setValue_def Let_def toCString_def)
qed

text \<open>
  C1. An update whose state token is invalid fails with an error and no widget value and
  no timeout is written, but the state of the property is not left as it was: \<open>TEMP\<close> is
  in state Alert with timeout 10 and value 5; after the update with \<open>state="Bogus"\<close>,
  \<open>timeout="60"\<close> and value 9 the call has returned -1 with the bogus-state message,
  value and timeout are unchanged, and the state is the fallback value of the
  converter, \<open>IPS_OK\<close>.
\<close>

theorem setValue_bogus_state_overwrites:
  "state (pAll scope ! 0) = IPS_ALERT \<and>
   setValue exampleExternals scope (setNumberVector ''Scope'' ''Bogus'' ''T'' ''9'') =
     Inr (- 1, Some (BogusState ''setNumberVector'' ''Bogus'' ''TEMP''),
          deviceWith ''Scope'' [(tempProperty 5)\<lparr>state := IPS_OK\<rparr>, ccdProperty])"
  by (simp add: setNumberVector_def set_defs scope_def ex_defs ext_defs Let_def)

section \<open>Updates never change the widget names on the path through \<open>for_property\<close>\<close>

lemma findWidgetFrom_Some:
  "findWidgetFrom ws k n = Some i \<Longrightarrow> k \<le> i \<and> i - k < length ws \<and> wname (ws ! (i - k)) = n"
proof (induction ws arbitrary: k)
  case Nil
  then show ?case by simp
next
  case (Cons w ws)
  show ?case
  proof (cases "wname w = n")
    case True
    with Cons.prems show ?thesis by simp
  next
    case False
    with Cons.prems have "findWidgetFrom ws (Suc k) n = Some i" by simp
    from Cons.IH [OF this] have ih: "Suc k \<le> i" "i - Suc k < length ws"
      "wname (ws ! (i - Suc k)) = n" by auto
    from ih(1) have "i - k = Suc (i - Suc k)" by arith
    with ih show ?thesis by auto
  qed
qed

lemma findWidgetFrom_None: "findWidgetFrom ws k n = None \<longleftrightarrow> n \<notin> set (map wname ws)"
  by (induction ws arbitrary: k) auto

lemma findWidgetByName_Some:
  "findWidgetByName ws n = Some i \<Longrightarrow> i < length ws \<and> wname (ws ! i) = n"
  using findWidgetFrom_Some [of ws 0 n i] by (simp add: findWidgetByName_def)

lemma findWidgetByName_None: "findWidgetByName ws n = None \<longleftrightarrow> n \<notin> set (map wname ws)"
  by (simp add: findWidgetByName_def findWidgetFrom_None)

lemma for_property_loop_names:
  assumes keep: "\<And>e w. wname (f e w) = wname w"
  shows "map wname (for_property_loop es ws f) = map wname ws"
proof (induction es arbitrary: ws)
  case Nil
  then show ?case by simp
next
  case (Cons e es)
  show ?case
  proof (cases "findWidgetByName ws (toCString (getAttribute e ''name''))")
    case None
    with Cons.IH show ?thesis by simp
  next
    case (Some i)
    have "map wname (ws[i := f e (ws ! i)]) = map wname ws"
      using findWidgetByName_Some [OF Some] keep by (simp add: map_update list_update_same_conv)
    with Cons.IH [of "ws[i := f e (ws ! i)]"] Some show ?thesis by simp
  qed
qed

lemma for_property_loop_unknown:
  "toCString (getAttribute e ''name'') \<notin> set (map wname ws) \<Longrightarrow>
     for_property_loop (e # es) ws f = for_property_loop es ws f"
  using findWidgetByName_None [of ws "toCString (getAttribute e ''name'')"] by simp

lemma updateWidgets_names: "widgetNames (updateWidgets X root' ws) = widgetNames ws"
  by (cases ws)
    (simp_all add: for_property_def for_property_loop_names oneNumber_def oneSwitch_def
      oneText_def oneLight_def Let_def split: option.split)

text \<open>
  C6. An update child that names no existing widget is not always ignored. On the path
  through \<open>for_property\<close> it is (the lemmas above), but a BLOB update goes through
  \<open>setBLOB\<close>, which uses the widget it looked up without testing it: \<open>CCD1\<close> has the one
  widget \<open>IMG\<close>, and the update with a child named \<open>NOPE\<close> of size 4 ends in an access
  through the null widget pointer.
\<close>

theorem setValue_unknown_blob_widget_faults:
  "widgetNames (widgets (pAll scope ! 1)) = [''IMG''] \<and>
   setValue exampleExternals scope
     (setBLOBVector
        [oneBLOBElement [(''name'', ''NOPE''), (''format'', ''.fits''), (''size'', ''4'')]
           ''AAAA''])
     = Inl NullWidgetAccess"
  by (simp add: setBLOBVector_def oneBLOBElement_def set_defs setBLOB_def
      getElementsByTagName_def oneBLOB_def getBlobs_def scope_def ex_defs ext_defs Let_def)

section \<open>Registering a property\<close>

text \<open>
  C8. \<open>registerProperty\<close> does not mark an existing ghost entry as registered, and is not
  idempotent: the device holds a ghost \<open>TEMP\<close> of kind Number; registering a Number
  property \<open>TEMP\<close> appends it as a further entry and leaves the ghost unregistered; and
  registering the same unregistered property twice on a device without properties
  leaves two entries where one call leaves one.
\<close>

theorem registerProperty_ghost_appends:
  "\<not> registered (pAll ghostScope ! 0) \<and> name (pAll ghostScope ! 0) = ''TEMP'' \<and>
   getType (pAll ghostScope ! 0) = INDI_NUMBER \<and>
   pAll (registerProperty (tempProperty 9) ghostScope) = pAll ghostScope @ [tempProperty 9] \<and>
   \<not> registered (pAll (registerProperty (tempProperty 9) ghostScope) ! 0) \<and>
   pAll (registerProperty ((tempProperty 5)\<lparr>registered := False\<rparr>) (deviceWith ''Scope'' []))
     = [(tempProperty 5)\<lparr>registered := False\<rparr>] \<and>
   pAll (registerProperty ((tempProperty 5)\<lparr>registered := False\<rparr>)
          (registerProperty ((tempProperty 5)\<lparr>registered := False\<rparr>) (deviceWith ''Scope'' [])))
     = [(tempProperty 5)\<lparr>registered := False\<rparr>, (tempProperty 5)\<lparr>registered := False\<rparr>]"
  by (simp add: registerProperty_def getProperty_def isValid_def getType_def
      getRegistered_def isNameMatch_def addProperty_def ghostScope_def ex_defs Let_def)


section \<open>One child of a BLOB update\<close>

lemma storePayload_fault:
  "storePayload X root' element sz b = Inl fault \<Longrightarrow> fault \<noteq> NullWidgetAccess"
  by (auto simp: storePayload_def Let_def split: option.splits if_splits)

lemma inflateBLOB_fault: "inflateBLOB X h w fmt d \<noteq> Crash NullWidgetAccess"
  by (simp add: inflateBLOB_def Let_def split: prod.split)

text \<open>
  C10. For a \<open>oneBLOB\<close> child that has its name, format and size attributes and a size
  that is not zero, the pass of \<open>setBLOB\<close> over it ends in an access through a null
  widget pointer exactly when its name is not the name of a widget of the property: the
  widget looked up is used (\<open>setSize\<close> and onward) with no test after the test for the
  three attributes.
\<close>

theorem oneBLOB_null_widget_access:
  "getAttribute element ''name'' = Some n \<Longrightarrow> getAttribute element ''format'' = Some f \<Longrightarrow>
   getAttribute element ''size'' = Some s \<Longrightarrow> toInt X (Some s) \<noteq> 0 \<Longrightarrow>
   (oneBLOB X root' h element d = Crash NullWidgetAccess) = (n \<notin> set (map wname (getBlobs d h)))"
proof (cases "findWidgetByName (getBlobs d h) n")
  case None
  assume "getAttribute element ''name'' = Some n" "getAttribute element ''format'' = Some f"
    "getAttribute element ''size'' = Some s" "toInt X (Some s) \<noteq> 0"
  with None findWidgetByName_None [of "getBlobs d h" n] show ?thesis
    by (simp add: oneBLOB_def toCString_def)
next
  case (Some w)
  assume "getAttribute element ''name'' = Some n" "getAttribute element ''format'' = Some f"
    "getAttribute element ''size'' = Some s" "toInt X (Some s) \<noteq> 0"
  moreover from Some findWidgetByName_None [of "getBlobs d h" n]
  have "n \<in> set (map wname (getBlobs d h))" by auto
  ultimately show ?thesis using Some
    by (auto simp: oneBLOB_def toCString_def Let_def inflateBLOB_fault
        split: sum.split dest: storePayload_fault)
qed

theorem oneBLOB_null_widget_access_witness:
  "oneBLOB exampleExternals (setBLOBVector []) 1
     (oneBLOBElement [(''name'', ''NOPE''), (''format'', ''.fits''), (''size'', ''4'')] ''AAAA'')
     scope = Crash NullWidgetAccess \<and>
   ''NOPE'' \<notin> set (map wname (getBlobs scope 1)) \<and>
   oneBLOB exampleExternals (setBLOBVector []) 1
     (oneBLOBElement [(''name'', ''IMG''), (''format'', ''.fits''), (''size'', ''4'')] ''AAAA'')
     scope \<noteq> Crash NullWidgetAccess \<and>
   ''IMG'' \<in> set (map wname (getBlobs scope 1))"
proof -
  let ?bad = "oneBLOBElement [(''name'', ''NOPE''), (''format'', ''.fits''), (''size'', ''4'')] ''AAAA''"
  let ?good = "oneBLOBElement [(''name'', ''IMG''), (''format'', ''.fits''), (''size'', ''4'')] ''AAAA''"
  have names: "''NOPE'' \<notin> set (map wname (getBlobs scope 1))"
    "''IMG'' \<in> set (map wname (getBlobs scope 1))"
    by (simp_all add: getBlobs_def scope_def ex_defs)
  have sz: "toInt exampleExternals (Some ''4'') \<noteq> 0"
    by (simp add: ext_defs)
  have bad: "getAttribute ?bad ''name'' = Some ''NOPE''" "getAttribute ?bad ''format'' = Some ''.fits''"
    "getAttribute ?bad ''size'' = Some ''4''"
    by (simp_all add: oneBLOBElement_def getAttribute_def)
  have good: "getAttribute ?good ''name'' = Some ''IMG''" "getAttribute ?good ''format'' = Some ''.fits''"
    "getAttribute ?good ''size'' = Some ''4''"
    by (simp_all add: oneBLOBElement_def getAttribute_def)
  from oneBLOB_null_widget_access [OF bad sz, of "setBLOBVector []" 1 scope]
    oneBLOB_null_widget_access [OF good sz, of "setBLOBVector []" 1 scope] names
  show ?thesis by simp
qed

text \<open>
  C7 (as amended). For a \<open>oneBLOB\<close> child that has its name, format and size
  attributes, whose size converts to zero and whose name is that of a widget of the
  property, \<open>setBLOB\<close> writes nothing: the buffer, length, size and format of every
  widget are unchanged, the \<open>newBLOB\<close> callback is invoked for that widget when a
  mediator is attached, and the loop goes on with the remaining children from that
  device. For a child that lacks its name, its format or its size attribute, \<open>setBLOB\<close>
  returns -1 with the message "No valid members": nothing is written, no callback is
  invoked for it and no later child is processed.
\<close>

theorem setBLOB_zero_size:
  "(getAttribute element ''name'' = Some n \<and> getAttribute element ''format'' = Some f \<and>
    getAttribute element ''size'' = Some s \<and> toInt X (Some s) = 0 \<and>
    findWidgetByName (getBlobs d h) n = Some w \<longrightarrow>
      setBLOB_loop X root' h (element # rest) d =
        setBLOB_loop X root' h rest
          (if mediator d then d\<lparr>calls := calls d @ [NewBLOB h (Some w)]\<rparr> else d)) \<and>
   (getAttribute element ''name'' = None \<or> getAttribute element ''format'' = None \<or>
    getAttribute element ''size'' = None \<longrightarrow>
      setBLOB_loop X root' h (element # rest) d =
        Inr (- 1,
             Some (NoValidMembers (device (pAll d ! h)) (name (pAll d ! h))
                     (toCString (getAttribute element ''name''))),
             d))"
  by (auto simp: oneBLOB_def callMediator_def toCString_def)

theorem setBLOB_zero_size_witness:
  "toInt exampleExternals (Some ''0'') = 0 \<and> mediator scope \<and>
   findWidgetByName (getBlobs scope 1) ''IMG'' = Some 0 \<and>
   setBLOB_loop exampleExternals (setBLOBVector []) 1
     [oneBLOBElement [(''name'', ''IMG''), (''format'', ''.fits''), (''size'', ''0'')] [],
      oneBLOBElement [(''name'', ''IMG''), (''format'', ''.raw''), (''size'', ''0'')] []]
     scope = Inr (0, None, scope\<lparr>calls := [NewBLOB 1 (Some 0), NewBLOB 1 (Some 0)]\<rparr>) \<and>
   setBLOB_loop exampleExternals (setBLOBVector []) 1
     [oneBLOBElement [(''name'', ''IMG''), (''size'', ''0'')] [],
      oneBLOBElement [(''name'', ''IMG''), (''format'', ''.raw''), (''size'', ''0'')] []]
     scope = Inr (- 1, Some (NoValidMembers ''Scope'' ''CCD1'' ''IMG''), scope)"
proof -
  let ?e = "oneBLOBElement [(''name'', ''IMG''), (''format'', ''.fits''), (''size'', ''0'')] []"
  let ?e2 = "oneBLOBElement [(''name'', ''IMG''), (''format'', ''.raw''), (''size'', ''0'')] []"
  let ?u = "oneBLOBElement [(''name'', ''IMG''), (''size'', ''0'')] []"
  let ?r = "setBLOBVector []"
  let ?d1 = "scope\<lparr>calls := [NewBLOB 1 (Some 0)]\<rparr>"
  have at: "getAttribute ?e ''name'' = Some ''IMG''" "getAttribute ?e ''format'' = Some ''.fits''"
    "getAttribute ?e ''size'' = Some ''0''"
    "getAttribute ?e2 ''name'' = Some ''IMG''" "getAttribute ?e2 ''format'' = Some ''.raw''"
    "getAttribute ?e2 ''size'' = Some ''0''"
    "getAttribute ?u ''format'' = None" "getAttribute ?u ''name'' = Some ''IMG''"
    by (simp_all add: oneBLOBElement_def getAttribute_def)
  have sz: "toInt exampleExternals (Some ''0'') = 0"
    by (simp add: ext_defs)
  have w: "findWidgetByName (getBlobs scope 1) ''IMG'' = Some 0"
    "findWidgetByName (getBlobs ?d1 1) ''IMG'' = Some 0"
    by (simp_all add: findWidgetByName_def getBlobs_def scope_def ex_defs)
  have m: "mediator scope" "calls scope = []" "mediator ?d1"
    by (simp_all add: scope_def deviceWith_def)
  have nm: "device (pAll scope ! 1) = ''Scope''" "name (pAll scope ! 1) = ''CCD1''"
    by (simp_all add: scope_def ex_defs)
  from setBLOB_zero_size [of ?e "''IMG''" "''.fits''" "''0''" exampleExternals scope 1 0 ?r "[?e2]"]
    at sz w m
  have step1: "setBLOB_loop exampleExternals ?r 1 [?e, ?e2] scope =
      setBLOB_loop exampleExternals ?r 1 [?e2] ?d1"
    by simp
  from setBLOB_zero_size [of ?e2 "''IMG''" "''.raw''" "''0''" exampleExternals ?d1 1 0 ?r "[]"]
    at sz w m
  have step2: "setBLOB_loop exampleExternals ?r 1 [?e2] ?d1 =
      Inr (0, None, scope\<lparr>calls := [NewBLOB 1 (Some 0), NewBLOB 1 (Some 0)]\<rparr>)"
    by simp
  from setBLOB_zero_size [of ?u "''IMG''" "''.fits''" "''0''" exampleExternals scope 1 0 ?r "[?e2]"]
    at nm
  have refused: "setBLOB_loop exampleExternals ?r 1 [?u, ?e2] scope =
      Inr (- 1, Some (NoValidMembers ''Scope'' ''CCD1'' ''IMG''), scope)"
    by (simp add: toCString_def)
  show ?thesis using sz m(1) w(1) step1 step2 refused by simp
qed

text \<open>
  The claim as stated fails for a child with size zero that lacks its format attribute:
  a mediator is attached, yet the update is answered with -1 and the message
  "No valid members", and no callback is invoked.
\<close>

theorem oneBLOB_zero_size_no_format_counterexample:
  "mediator scope \<and> calls scope = [] \<and>
   toInt exampleExternals
     (getAttribute (oneBLOBElement [(''name'', ''IMG''), (''size'', ''0'')] []) ''size'') = 0 \<and>
   setValue exampleExternals scope
     (setBLOBVector [oneBLOBElement [(''name'', ''IMG''), (''size'', ''0'')] []])
     = Inr (- 1, Some (NoValidMembers ''Scope'' ''CCD1'' ''IMG''),
            deviceWith ''Scope'' [tempProperty 5, ccdProperty\<lparr>state := IPS_OK\<rparr>])"
  by (simp add: setBLOBVector_def oneBLOBElement_def set_defs setBLOB_def
      getElementsByTagName_def oneBLOB_def getBlobs_def scope_def ex_defs ext_defs Let_def)


section \<open>Compressed BLOBs\<close>

lemma lastIndexOf_z:
  assumes "endsWith f ''.z''"
  shows "lastIndexOf f ''.z'' = Some (length f - 2)"
proof -
  define m where "m = length f - 2"
  from assms have a: "2 \<le> length f" "drop (length f - 2) f = ''.z''"
    by (simp_all add: endsWith_def numeral_2_eq_2)
  from a(1) have len: "length f = Suc (Suc m)"
    unfolding m_def by arith
  from a(2) have tail: "drop m f = ''.z''"
    by (simp add: m_def)
  have idx: "[0..<Suc (length f)] = [0..<m] @ [m, Suc m, Suc (Suc m)]"
    using len by simp
  have "length (take 2 (drop (Suc m) f)) = 1"
    using len by simp
  then have p1: "take 2 (drop (Suc m) f) \<noteq> ''.z''"
    by (metis length_Cons list.size(3) numeral_2_eq_2 One_nat_def n_not_Suc_n)
  have p2: "take 2 (drop (Suc (Suc m)) f) \<noteq> ''.z''"
    using len by simp
  have p0: "take 2 (drop m f) = ''.z''"
    using tail by simp
  show ?thesis
    unfolding lastIndexOf_def idx using p0 p1 p2 len by (simp add: numeral_2_eq_2)
qed

lemma strip_z: "endsWith f ''.z'' \<Longrightarrow> substr0 f (lastIndexOf f ''.z'') = take (length f - 2) f"
  by (simp add: lastIndexOf_z substr0_def)

lemma setWidget_eq:
  "widgets (pAll d ! h) = Blobs ws \<Longrightarrow>
     setWidget h w f d =
       d\<lparr>pAll := (pAll d)[h := (pAll d ! h)
                 \<lparr>widgets := Blobs (ws[w := (ws ! w)\<lparr>wdata := f (wdata (ws ! w))\<rparr>])\<rparr>]\<rparr>"
  by (simp add: setWidget_def updateProperty_def)

lemma widgets_setWidget:
  "h < length (pAll d) \<Longrightarrow> widgets (pAll d ! h) = Blobs ws \<Longrightarrow>
     widgets (pAll (setWidget h w f d) ! h) =
       Blobs (ws[w := (ws ! w)\<lparr>wdata := f (wdata (ws ! w))\<rparr>])"
  by (simp add: setWidget_eq)

lemma setWidget_setWidget:
  "h < length (pAll d) \<Longrightarrow> widgets (pAll d ! h) = Blobs ws \<Longrightarrow> w < length ws \<Longrightarrow>
     setWidget h w g (setWidget h w f d) = setWidget h w (\<lambda>b. g (f b)) d"
  by (simp add: setWidget_eq)

lemma getBlobs_setWidget:
  "h < length (pAll d) \<Longrightarrow> widgets (pAll d ! h) = Blobs ws \<Longrightarrow>
     getBlobs (setWidget h w f d) h = ws[w := (ws ! w)\<lparr>wdata := f (wdata (ws ! w))\<rparr>]"
  by (simp add: getBlobs_def widgets_setWidget)

lemma names_setWidget:
  "h < length (pAll d) \<Longrightarrow> widgets (pAll d ! h) = Blobs ws \<Longrightarrow>
     device (pAll (setWidget h w f d) ! h) = device (pAll d ! h) \<and>
     name (pAll (setWidget h w f d) ! h) = name (pAll d ! h)"
  by (simp add: setWidget_eq)

lemma length_setWidget [simp]: "length (pAll (setWidget h w f d)) = length (pAll d)"
  by (simp add: setWidget_def updateProperty_def)


text \<open>
  C4 (as amended). Take a \<open>oneBLOB\<close> child with name, format and size attributes whose
  size is not zero, whose name is that of an existing widget \<open>w\<close>, whose format ends
  in \<open>.z\<close> and whose compressed data arrive as an attached shared buffer of at least
  \<open>size\<close> bytes, and let the buffers of that size be allocated. \<open>setBLOB\<close> stores the
  declared size and the attached data in the widget, stores the format with the \<open>.z\<close>
  suffix stripped, and then inflates the data. When zlib returns \<open>Z_OK\<close>, the widget
  holds exactly the original uncompressed bytes (the bytes zlib returns for the attached
  data), its size is their number, its format is the stripped one, the mediator is told
  and the loop goes on with the remaining children. When zlib returns another code, the
  call returns -1 with the compression error message that carries that code; no later
  child is processed, the mediator is not told, and only the widget \<open>w\<close> has changed:
  it keeps the stripped format, the declared size and the attached data, so the suffix
  is stripped on failure as well as on success.
\<close>

theorem setBLOB_compressed_attachment:
  assumes "getAttribute element ''name'' = Some n"
    and "getAttribute element ''format'' = Some f"
    and "getAttribute element ''size'' = Some s"
    and "toInt X (Some s) \<noteq> 0"
    and "h < length (pAll d)"
    and "widgets (pAll d ! h) = Blobs ws"
    and "findWidgetByName ws n = Some w"
    and "endsWith f ''.z''"
    and "getAttribute element ''attached-data-id'' = Some uid"
    and "k = nat (toInt X (Some s) mod 2 ^ 64)"
    and "malloc X k"
    and "k \<le> length (attachBlobByUid X uid (toInt X (Some s)))"
    and "stored = (case getAttribute element ''attachment-direct'' of
                     Some direct \<Rightarrow> attachBlobByUid X uid (toInt X (Some s))
                   | None \<Rightarrow> take k (attachBlobByUid X uid (toInt X (Some s))))"
    and "b = (wdata (ws ! w))\<lparr>bsize := toInt X (Some s), blob := stored,
                               bloblen := toInt X (Some s),
                               bformat := take (length f - 2) f\<rparr>"
    and "uncompress X k (take k (attachBlobByUid X uid (toInt X (Some s)))) = (r, plain)"
  shows "setBLOB_loop X root' h (element # rest) d =
           (if r = Z_OK
            then setBLOB_loop X root' h rest
                   (callMediator (NewBLOB h (Some w))
                      (setWidget h w (\<lambda>_. b\<lparr>bsize := int (length plain), blob := plain\<rparr>) d))
            else Inr (- 1,
                   Some (CompressionError (device (pAll d ! h)) (name (pAll d ! h)) n r),
                   setWidget h w (\<lambda>_. b) d))"
proof -
  let ?sz = "toInt X (Some s)"
  let ?att = "attachBlobByUid X uid ?sz"
  let ?d1 = "setWidget h w (\<lambda>b. b\<lparr>bsize := ?sz\<rparr>) d"
  let ?pay = "(wdata (ws ! w))\<lparr>bsize := ?sz, blob := stored, bloblen := ?sz\<rparr>"
  let ?d2 = "setWidget h w (\<lambda>b. ?pay) ?d1"
  from assms(7) have w: "w < length ws" "wname (ws ! w) = n"
    using findWidgetByName_Some [of ws n w] by simp_all
  have blobs: "getBlobs d h = ws"
    using assms(6) by (simp add: getBlobs_def)
  have b1: "wdata (getBlobs ?d1 h ! w) = (wdata (ws ! w))\<lparr>bsize := ?sz\<rparr>"
    using assms(5,6) w by (simp add: getBlobs_setWidget)
  have pay: "storePayload X root' element ?sz ((wdata (ws ! w))\<lparr>bsize := ?sz\<rparr>) = Inr ?pay"
    using assms(9,11,12,13) assms(10) [symmetric]
    by (simp add: storePayload_def Let_def split: option.split)
  have d2: "?d2 = setWidget h w (\<lambda>_. ?pay) d"
    using assms(5,6) w(1) by (simp add: setWidget_setWidget)
  have body: "oneBLOB X root' h element d = inflateBLOB X h w f ?d2"
    using assms(1-4,7,8) blobs b1 pay
    by (simp add: oneBLOB_def toCString_def Let_def)
  have d3: "setWidget h w (\<lambda>b. b\<lparr>bformat := substr0 f (lastIndexOf f ''.z'')\<rparr>) ?d2 =
      setWidget h w (\<lambda>_. b) d"
    unfolding d2 using assms(5,6,8,14) w(1) by (simp add: setWidget_setWidget strip_z)
  have b3: "wdata (getBlobs (setWidget h w (\<lambda>_. b) d) h ! w) = b"
    "wname (getBlobs (setWidget h w (\<lambda>_. b) d) h ! w) = n"
    using assms(5,6) w by (simp_all add: getBlobs_setWidget)
  have nm: "device (pAll (setWidget h w (\<lambda>_. b) d) ! h) = device (pAll d ! h)"
    "name (pAll (setWidget h w (\<lambda>_. b) d) ! h) = name (pAll d ! h)"
    using assms(5,6) by (simp_all add: names_setWidget)
  have fields: "nat (bsize b mod 2 ^ 64) = k" "nat (bloblen b mod 2 ^ 64) = k" "blob b = stored"
    using assms(10,14) by simp_all
  have len: "\<not> length stored < k" and src: "take k stored = take k ?att"
    using assms(12,13) by (simp_all split: option.split)
  have last: "setWidget h w (\<lambda>b. b\<lparr>bsize := int (length plain), blob := plain\<rparr>)
        (setWidget h w (\<lambda>_. b) d) =
      setWidget h w (\<lambda>_. b\<lparr>bsize := int (length plain), blob := plain\<rparr>) d"
    using assms(5,6) w(1) by (simp add: setWidget_setWidget)
  have "inflateBLOB X h w f ?d2 =
      (if r = Z_OK
       then Continue (callMediator (NewBLOB h (Some w))
               (setWidget h w (\<lambda>_. b\<lparr>bsize := int (length plain), blob := plain\<rparr>) d))
       else Return (- 1,
              Some (CompressionError (device (pAll d ! h)) (name (pAll d ! h)) n r),
              setWidget h w (\<lambda>_. b) d))"
    unfolding inflateBLOB_def Let_def d3 b3 nm fields src
    using assms(11,15) len last by simp
  with body show ?thesis by simp
qed

lemma strip_fits_z: "substr0 ''.fits.z'' (lastIndexOf ''.fits.z'' ''.z'') = ''.fits''"
  using strip_z [of "''.fits.z''"] by (simp add: endsWith_def)


theorem setBLOB_compressed_attachment_witness:
  "setBLOB_loop exampleExternals (setBLOBVector []) 1
     [oneBLOBElement [(''name'', ''IMG''), (''format'', ''.fits.z''), (''size'', ''4''),
                      (''attached-data-id'', ''packed'')] []]
     scope =
     Inr (0, None, (deviceWith ''Scope''
        [tempProperty 5,
         ccdProperty\<lparr>widgets := Blobs [\<lparr>wname = ''IMG'', wlabel = [],
            wdata = \<lparr>bformat = ''.fits'', blob = [1, 2, 3], bloblen = 4, bsize = 3\<rparr>\<rparr>]\<rparr>])
        \<lparr>calls := [NewBLOB 1 (Some 0)]\<rparr>) \<and>
   setBLOB_loop exampleExternals (setBLOBVector []) 1
     [oneBLOBElement [(''name'', ''IMG''), (''format'', ''.fits.z''), (''size'', ''4''),
                      (''attached-data-id'', ''broken''), (''attachment-direct'', ''true'')] [],
      oneBLOBElement [(''name'', ''IMG''), (''format'', ''.raw''), (''size'', ''0'')] []]
     scope =
     Inr (- 1, Some (CompressionError ''Scope'' ''CCD1'' ''IMG'' (- 3)),
       deviceWith ''Scope''
        [tempProperty 5,
         ccdProperty\<lparr>widgets := Blobs [\<lparr>wname = ''IMG'', wlabel = [],
            wdata = \<lparr>bformat = ''.fits'', blob = [7, 7, 7, 7], bloblen = 4, bsize = 4\<rparr>\<rparr>]\<rparr>])"
proof -
  let ?ok = "oneBLOBElement [(''name'', ''IMG''), (''format'', ''.fits.z''), (''size'', ''4''),
                      (''attached-data-id'', ''packed'')] []"
  let ?ko = "oneBLOBElement [(''name'', ''IMG''), (''format'', ''.fits.z''), (''size'', ''4''),
                      (''attached-data-id'', ''broken''), (''attachment-direct'', ''true'')] []"
  let ?next = "oneBLOBElement [(''name'', ''IMG''), (''format'', ''.raw''), (''size'', ''0'')] []"
  let ?ws = "[\<lparr>wname = ''IMG'', wlabel = [],
               wdata = \<lparr>bformat = ''.raw'', blob = [9, 9], bloblen = 2, bsize = 2\<rparr>\<rparr>]"
  let ?r = "setBLOBVector []"
  have sz: "toInt exampleExternals (Some ''4'') = 4"
    by (simp add: ext_defs)
  have nz: "toInt exampleExternals (Some ''4'') \<noteq> 0"
    by (simp add: sz)
  have k: "(4::nat) = nat (toInt exampleExternals (Some ''4'') mod 2 ^ 64)"
    unfolding sz by simp
  have h: "1 < length (pAll scope)" "widgets (pAll scope ! 1) = Blobs ?ws"
    by (simp_all add: scope_def ex_defs)
  have w: "findWidgetByName ?ws ''IMG'' = Some 0"
    by (simp add: findWidgetByName_def)
  have z: "endsWith ''.fits.z'' ''.z''"
    by (simp add: endsWith_def)
  have m: "malloc exampleExternals 4"
    by (simp add: exampleExternals_def)
  have ok: "getAttribute ?ok ''name'' = Some ''IMG''" "getAttribute ?ok ''format'' = Some ''.fits.z''"
    "getAttribute ?ok ''size'' = Some ''4''"
    by (simp_all add: oneBLOBElement_def getAttribute_def)
  have okid: "getAttribute ?ok ''attached-data-id'' = Some ''packed''"
    "getAttribute ?ok ''attachment-direct'' = None"
    by (simp_all add: oneBLOBElement_def getAttribute_def)
  have ko: "getAttribute ?ko ''name'' = Some ''IMG''" "getAttribute ?ko ''format'' = Some ''.fits.z''"
    "getAttribute ?ko ''size'' = Some ''4''"
    by (simp_all add: oneBLOBElement_def getAttribute_def)
  have koid: "getAttribute ?ko ''attached-data-id'' = Some ''broken''"
    "getAttribute ?ko ''attachment-direct'' = Some ''true''"
    by (simp_all add: oneBLOBElement_def getAttribute_def)
  have att: "attachBlobByUid exampleExternals ''packed'' (toInt exampleExternals (Some ''4''))
               = [120, 1, 2, 3]"
    "attachBlobByUid exampleExternals ''broken'' (toInt exampleExternals (Some ''4''))
               = [7, 7, 7, 7]"
    unfolding sz by (simp_all add: exampleExternals_def exampleAttach_def)
  have long: "4 \<le> length (attachBlobByUid exampleExternals ''packed''
                              (toInt exampleExternals (Some ''4'')))"
    "4 \<le> length (attachBlobByUid exampleExternals ''broken''
                              (toInt exampleExternals (Some ''4'')))"
    unfolding att by simp_all
  have sok: "[120, 1, 2, 3 :: byte] = (case getAttribute ?ok ''attachment-direct'' of
        Some direct \<Rightarrow> attachBlobByUid exampleExternals ''packed''
                         (toInt exampleExternals (Some ''4''))
      | None \<Rightarrow> take 4 (attachBlobByUid exampleExternals ''packed''
                         (toInt exampleExternals (Some ''4''))))"
    unfolding att okid by simp
  have sko: "[7, 7, 7, 7 :: byte] = (case getAttribute ?ko ''attachment-direct'' of
        Some direct \<Rightarrow> attachBlobByUid exampleExternals ''broken''
                         (toInt exampleExternals (Some ''4''))
      | None \<Rightarrow> take 4 (attachBlobByUid exampleExternals ''broken''
                         (toInt exampleExternals (Some ''4''))))"
    unfolding att koid by simp
  define bok where "bok = (wdata (?ws ! 0))\<lparr>bsize := toInt exampleExternals (Some ''4''),
      blob := [120, 1, 2, 3], bloblen := toInt exampleExternals (Some ''4''),
      bformat := take (length ''.fits.z'' - 2) ''.fits.z''\<rparr>"
  define bko where "bko = (wdata (?ws ! 0))\<lparr>bsize := toInt exampleExternals (Some ''4''),
      blob := [7, 7, 7, 7], bloblen := toInt exampleExternals (Some ''4''),
      bformat := take (length ''.fits.z'' - 2) ''.fits.z''\<rparr>"
  have bok: "bok = \<lparr>bformat = ''.fits'', blob = [120, 1, 2, 3], bloblen = 4, bsize = 4\<rparr>"
    unfolding bok_def sz by simp
  have bko: "bko = \<lparr>bformat = ''.fits'', blob = [7, 7, 7, 7], bloblen = 4, bsize = 4\<rparr>"
    unfolding bko_def sz by simp
  have uok: "uncompress exampleExternals 4
               (take 4 (attachBlobByUid exampleExternals ''packed''
                          (toInt exampleExternals (Some ''4'')))) = (Z_OK, [1, 2, 3])"
    unfolding att by (simp add: exampleExternals_def exampleUncompress_def)
  have uko: "uncompress exampleExternals 4
               (take 4 (attachBlobByUid exampleExternals ''broken''
                          (toInt exampleExternals (Some ''4'')))) = (- 3, [])"
    unfolding att by (simp add: exampleExternals_def exampleUncompress_def)
  from setBLOB_compressed_attachment
    [OF ok nz h w z okid(1) k m long(1) sok bok_def uok, of ?r "[]"]
  have first: "setBLOB_loop exampleExternals ?r 1 [?ok] scope =
      Inr (0, None, callMediator (NewBLOB 1 (Some 0))
         (setWidget 1 0 (\<lambda>_. bok\<lparr>bsize := int (length [1, 2, 3 :: byte]), blob := [1, 2, 3]\<rparr>)
            scope))"
    by simp
  from setBLOB_compressed_attachment
    [OF ko nz h w z koid(1) k m long(2) sko bko_def uko, of ?r "[?next]"]
  have second: "setBLOB_loop exampleExternals ?r 1 [?ko, ?next] scope =
      Inr (- 1, Some (CompressionError (device (pAll scope ! 1)) (name (pAll scope ! 1))
                ''IMG'' (- 3)),
           setWidget 1 0 (\<lambda>_. bko) scope)"
    by (simp add: Z_OK_def)
  show ?thesis
    unfolding first second
    by (simp add: bok bko setWidget_def updateProperty_def callMediator_def scope_def ex_defs)
qed

text \<open>
  The claim as stated fails on the failure path: the suffix is stripped before the data
  are inflated. The update carries format \<open>.fits.z\<close> and data zlib refuses; the call
  returns the compression error with zlib's code, and the widget \<open>IMG\<close>, whose format
  was \<open>.raw\<close>, has the stripped format \<open>.fits\<close>, the declared size and the data as
  received.
\<close>

theorem setValue_inflate_failure_counterexample:
  "bformat (wdata (getBlobs scope 1 ! 0)) = ''.raw'' \<and>
   setValue exampleExternals scope
     (setBLOBVector
        [oneBLOBElement [(''name'', ''IMG''), (''format'', ''.fits.z''), (''size'', ''4''),
                         (''attached-data-id'', ''broken'')] []])
     = Inr (- 1, Some (CompressionError ''Scope'' ''CCD1'' ''IMG'' (- 3)),
         deviceWith ''Scope''
          [tempProperty 5,
           ccdProperty\<lparr>state := IPS_OK,
             widgets := Blobs [\<lparr>wname = ''IMG'', wlabel = [],
               wdata = \<lparr>bformat = ''.fits'', blob = [7, 7, 7, 7], bloblen = 4,
                        bsize = 4\<rparr>\<rparr>]\<rparr>])"
  using strip_fits_z
  by (simp add: setBLOBVector_def oneBLOBElement_def set_defs setBLOB_def
      getElementsByTagName_def oneBLOB_def inflateBLOB_def getBlobs_def setWidget_def
      storePayload_def
      endsWith_def exampleAttach_def exampleUncompress_def Z_OK_def scope_def ex_defs ext_defs
      Let_def)

end
